theory Spec2Isabelle
  imports Complex_Main "HOL-Library.Char_ord" "HOL-Library.List_Lexorder"
begin

section \<open>Tabular data\<close>

text \<open>
  A pandas DataFrame is an index (its length is \<open>len(df)\<close>) and an ordered sequence of
  labelled columns, each with a stored type (\<open>dtype\<close>) and one cell per row. Cells are what
  a delimited text file or a spreadsheet yields: a number, a text, or a missing value
  (\<open>NaN\<close>/\<open>None\<close>/\<open>NaT\<close>, all of which \<open>isna()\<close> reports). A boolean is carried as the
  number 0 or 1 and a timestamp as its number; the dtype tells them apart. Numbers are exact
  rationals; the places where the source compares 64-bit floats against a threshold, or
  rounds the result of an operation, are noted where they occur.

  The stored types are those \<open>pd.read_csv\<close>, \<open>pd.read_excel\<close> and \<open>pd.to_numeric\<close> give a
  column: \<open>int64\<close>, \<open>float64\<close>, \<open>bool\<close>, \<open>object\<close>, \<open>datetime64[ns]\<close>, and \<open>uint64\<close>
  for whole numbers of which one is \<open>2^63\<close> or more and none is negative. The labels of a
  loaded file are distinct (the readers rename a repeated header); the operations below go
  through the columns by position.
\<close>

datatype col_label = LStr string | LInt int

datatype dtype = Int64 | UInt64 | Float64 | Bool | Object | Datetime64

datatype cell = NaN | Num rat | Txt string

record column =
  label :: col_label
  dtype :: dtype
  cells :: "cell list"

record dataframe =
  nrows :: nat
  columns :: "column list"

definition isna :: "cell \<Rightarrow> bool" where
  "isna x = (x = NaN)"

definition notna :: "cell \<Rightarrow> bool" where
  "notna x = (x \<noteq> NaN)"

text \<open>
  The two tests for a numeric column of the source. \<open>Series.dtype in ['int64', 'float64']\<close>
  (profiler.py:49, cleaner.py:100) names two stored types;
  \<open>select_dtypes(include=[np.number])\<close> (analyzer.py:33, cleaner.py:149) selects every
  numeric stored type, booleans and timestamps not being numbers.
\<close>

definition is_int64_or_float64 :: "dtype \<Rightarrow> bool" where
  "is_int64_or_float64 t = (t = Int64 \<or> t = Float64)"

definition is_np_number :: "dtype \<Rightarrow> bool" where
  "is_np_number t = (t = Int64 \<or> t = UInt64 \<or> t = Float64)"

text \<open>\<open>df.empty\<close>: some axis has length zero.\<close>

definition empty_df :: "dataframe \<Rightarrow> bool" where
  "empty_df df = (nrows df = 0 \<or> columns df = [])"

text \<open>Every column holds one cell per row.\<close>

definition wf_df :: "dataframe \<Rightarrow> bool" where
  "wf_df df = list_all (\<lambda>c. length (cells c) = nrows df) (columns df)"

text \<open>The text of a label, as \<open>str(label)\<close> and an f-string print it.\<close>

definition digit_char :: "nat \<Rightarrow> char" where
  "digit_char d = char_of (48 + d)"

fun str_nat :: "nat \<Rightarrow> string" where
  "str_nat n = (if n < 10 then [digit_char n] else str_nat (n div 10) @ [digit_char (n mod 10)])"

declare str_nat.simps [simp del]

definition str_int :: "int \<Rightarrow> string" where
  "str_int i = (if i < 0 then CHR ''-'' # str_nat (nat (- i)) else str_nat (nat i))"

fun str_label :: "col_label \<Rightarrow> string" where
  "str_label (LStr s) = s"
| "str_label (LInt i) = str_int i"

text \<open>A raised Python exception, with its message.\<close>

datatype exn = Exception string

section \<open>Profiler: column classification (core/profiler.py)\<close>

text \<open>\<open>Series.nunique()\<close>: the number of distinct values, missing values not counted.\<close>

definition nunique :: "column \<Rightarrow> nat" where
  "nunique c = length (remdups (filter notna (cells c)))"

record column_types =
  numeric :: "col_label list"
  categorical :: "col_label list"
  datetime :: "col_label list"

text \<open>
  One iteration of the loop of \<open>_classify_columns\<close>. The source tests
  \<open>unique_count < 10 and unique_count < len(self.df) * 0.05\<close> in floating point; for a count
  below 10 the product \<open>len * 0.05\<close> rounds to the count exactly when \<open>len = 20 * count\<close>,
  so the float comparison agrees with the exact one written here.
\<close>

definition classify_column :: "nat \<Rightarrow> column_types \<Rightarrow> column \<Rightarrow> column_types" where
  "classify_column n acc c =
     (if is_int64_or_float64 (dtype c) then
        (let unique_count = nunique c in
         if unique_count < 10 \<and> (of_nat unique_count :: rat) < of_nat n * (5 / 100)
         then acc\<lparr>categorical := categorical acc @ [label c]\<rparr>
         else acc\<lparr>numeric := numeric acc @ [label c]\<rparr>)
      else if dtype c = Datetime64 then acc\<lparr>datetime := datetime acc @ [label c]\<rparr>
      else acc\<lparr>categorical := categorical acc @ [label c]\<rparr>)"

definition classify_columns :: "dataframe \<Rightarrow> column_types" where
  "classify_columns df =
     foldl (classify_column (nrows df)) \<lparr>numeric = [], categorical = [], datetime = []\<rparr> (columns df)"

text \<open>A column for the examples: the values 1 to 8, repeated \<open>k\<close> times.\<close>

definition eight_values :: "cell list" where
  "eight_values = [Num 1, Num 2, Num 3, Num 4, Num 5, Num 6, Num 7, Num 8]"

definition codes_column :: "nat \<Rightarrow> column" where
  "codes_column k = \<lparr>label = LStr ''code'', dtype = Int64, cells = concat (replicate k eight_values)\<rparr>"

definition codes_df :: "nat \<Rightarrow> dataframe" where
  "codes_df k = \<lparr>nrows = 8 * k, columns = [codes_column k]\<rparr>"

definition codes50 :: column where
  "codes50 = \<lparr>label = LStr ''code'', dtype = Int64,
     cells = concat (replicate 6 eight_values) @ [Num 1, Num 2]\<rparr>"

text \<open>
  A column of 50 identifiers with 8 distinct values, all of them \<open>2^63\<close> or more: pandas
  stores it as \<open>uint64\<close>.
\<close>

definition eight_ids :: "cell list" where
  "eight_ids = [Num 9223372036854775808, Num 9223372036854775809, Num 9223372036854775810,
     Num 9223372036854775811, Num 9223372036854775812, Num 9223372036854775813,
     Num 9223372036854775814, Num 9223372036854775815]"

definition ids50 :: column where
  "ids50 = \<lparr>label = LStr ''id'', dtype = UInt64,
     cells = concat (replicate 6 eight_ids) @ [Num 9223372036854775808, Num 9223372036854775809]\<rparr>"

definition ids_df :: dataframe where
  "ids_df = \<lparr>nrows = 50, columns = [ids50]\<rparr>"

section \<open>Narrative generator client: chart instructions (core/llm\_client.py)\<close>

text \<open>
  \<open>str.replace(old, new)\<close> for a non-empty pattern: non-overlapping occurrences, scanned
  from the left. Every call in the source passes a non-empty literal pattern; an empty one
  returns the text as it is here.
\<close>

function replace :: "string \<Rightarrow> string \<Rightarrow> string \<Rightarrow> string" where
  "replace old new s =
     (if s = [] \<or> old = [] then s
      else if take (length old) s = old then new @ replace old new (drop (length old) s)
      else hd s # replace old new (tl s))"
  by pat_completeness auto
termination
  by (relation "measure (\<lambda>(old, new, s). length s)") (auto simp: neq_Nil_conv)

declare replace.simps [simp del]

text \<open>
  \<open>str.strip()\<close> removes the characters \<open>str.isspace()\<close> accepts. A character here is a code
  point below 256, and those of them that are white space are the blank, the tab and the
  line breaks 9 to 13, the separators 28 to 31, the next-line character 133 and the
  no-break space 160.
\<close>

definition is_space :: "char \<Rightarrow> bool" where
  "is_space c = (let n = (of_char c :: nat)
     in n = 32 \<or> (9 \<le> n \<and> n \<le> 13) \<or> (28 \<le> n \<and> n \<le> 31) \<or> n = 133 \<or> n = 160)"

definition strip :: "string \<Rightarrow> string" where
  "strip s = rev (dropWhile is_space (rev (dropWhile is_space s)))"

text \<open>
  The arguments of a chart request. The context is an f-string around the list of column
  labels (\<open>f"Numeric columns: {numeric_cols}"\<close>): its fixed text before and after, and the
  list. The columns argument is the list of labels (automatic run) or a text (custom chart).
\<close>

datatype request_context = Context string "col_label list" string

datatype req_columns = Col_list "col_label list" | Col_text string

record chart_prompt =
  prompt_context :: request_context
  prompt_columns :: req_columns
  prompt_chart_type :: string

text \<open>
  The client. \<open>_make_request\<close> posts the prompt and returns the reply text, or \<open>None\<close> on a
  non-200 status or on any exception (it catches them all): the remote model is a parameter.
\<close>

record llm_client =
  available :: bool
  make_request :: "chart_prompt \<Rightarrow> string option"

definition fence :: string where
  "fence = [CHR 0x60, CHR 0x60, CHR 0x60]"

definition generate_chart_code :: "llm_client \<Rightarrow> request_context \<Rightarrow> req_columns \<Rightarrow> string \<Rightarrow> string option" where
  "generate_chart_code llm ctx cols chart_type =
     (if \<not> available llm then None
      else
        (case make_request llm \<lparr>prompt_context = ctx, prompt_columns = cols,
                 prompt_chart_type = (if chart_type \<noteq> [] then chart_type else ''Best fit'')\<rparr> of
           None \<Rightarrow> None
         | Some response \<Rightarrow>
             if response \<noteq> []
             then Some (strip (replace fence [] (replace (fence @ ''python'') [] response)))
             else None))"

section \<open>Chart engine (core/analyzer.py)\<close>

text \<open>
  The \<open>code\<close> entry of a chart: the generated text, or one of the three f-string templates
  of the built-in charts with the labels it interpolates.
\<close>

datatype plot_code =
  Generated string
| Hist_template col_label
| Bar_template col_label
| Box_template "col_label list"

record chart =
  chart_type :: string
  chart_title :: string
  chart_filename :: string
  chart_filepath :: string
  chart_description :: string
  chart_code :: plot_code

text \<open>
  What executing a generated text can raise. The handlers of the chart engine are
  \<open>except Exception\<close>: they catch the instances of \<open>Exception\<close>, and let pass what derives
  from \<open>BaseException\<close> only, the exits \<open>SystemExit\<close> (\<open>raise SystemExit\<close>, \<open>exit()\<close>),
  \<open>KeyboardInterrupt\<close> and \<open>GeneratorExit\<close>.
\<close>

datatype exit = SystemExit string | KeyboardInterrupt | GeneratorExit

datatype raised = Raises exn | Exits exit

text \<open>A call returns a value, or an exit passes through it to its caller.\<close>

datatype 'a outcome = Returned 'a | Propagated exit

text \<open>
  The plotting libraries are parameters: each call either completes or raises.
  \<open>exec_code\<close> is \<open>plt.figure(...)\<close> followed by \<open>exec(code, {}, local_env)\<close>, which runs
  a text the generator wrote and can raise anything; \<open>savefig\<close> is \<open>plt.title\<close>,
  \<open>plt.tight_layout\<close>, \<open>plt.savefig(filepath)\<close> and \<open>plt.close\<close>; the other three are
  the seaborn/matplotlib calls of the built-in charts. What the library calls raise are
  instances of \<open>Exception\<close>.
\<close>

record renderer =
  exec_code :: "string \<Rightarrow> dataframe \<Rightarrow> raised + unit"
  savefig :: "string \<Rightarrow> string \<Rightarrow> exn + unit"
  histplot :: "dataframe \<Rightarrow> col_label \<Rightarrow> exn + unit"
  countplot :: "dataframe \<Rightarrow> col_label \<Rightarrow> exn + unit"
  boxplot :: "dataframe \<Rightarrow> col_label list \<Rightarrow> exn + unit"

record analyzer =
  df :: dataframe
  session_id :: string
  charts :: "chart list"
  llm :: llm_client
  charts_dir :: string

definition path_join :: "string \<Rightarrow> string \<Rightarrow> string" where
  "path_join d f = d @ ''/'' @ f"

definition new_analyzer :: "string \<Rightarrow> llm_client \<Rightarrow> dataframe \<Rightarrow> string \<Rightarrow> analyzer" where
  "new_analyzer temp_folder client d sid =
     \<lparr>df = d, session_id = sid, charts = [], llm = client, charts_dir = path_join temp_folder sid\<rparr>"

text \<open>
  The two column lists of \<open>analyze\<close>: \<open>select_dtypes(include=[np.number])\<close> and
  \<open>select_dtypes(include=['object'])\<close>.
\<close>

definition select_number :: "dataframe \<Rightarrow> col_label list" where
  "select_number d = map label (filter (\<lambda>c. is_np_number (dtype c)) (columns d))"

definition select_object :: "dataframe \<Rightarrow> col_label list" where
  "select_object d = map label (filter (\<lambda>c. dtype c = Object) (columns d))"

text \<open>
  \<open>_execute_plot_code\<close>: the body of the \<open>try\<close> runs the code, saves the figure and only
  then appends the chart. On an instance of \<open>Exception\<close> the \<open>except\<close> prints the error,
  closes the figure and returns \<open>False\<close> with the analyzer as it was; an exit is not caught
  and leaves the method without a return value.
\<close>

definition execute_plot_code ::
  "renderer \<Rightarrow> analyzer \<Rightarrow> string \<Rightarrow> string \<Rightarrow> string \<Rightarrow> bool outcome \<times> analyzer" where
  "execute_plot_code r a code title filename_base =
     (case exec_code r code (df a) of
        Inl (Exits x) \<Rightarrow> (Propagated x, a)
      | Inl (Raises e) \<Rightarrow> (Returned False, a)
      | Inr _ \<Rightarrow>
          (let filename = filename_base @ ''.png'';
               filepath = path_join (charts_dir a) filename
           in case savefig r filepath title of
                Inl e \<Rightarrow> (Returned False, a)
              | Inr _ \<Rightarrow>
                  (Returned True,
                   a\<lparr>charts := charts a @
                    [\<lparr>chart_type = ''custom'', chart_title = title, chart_filename = filename,
                      chart_filepath = filepath,
                      chart_description = ''AI generated chart: '' @ title,
                      chart_code = Generated code\<rparr>]\<rparr>)))"

text \<open>\<open>_save_plot\<close> raises what \<open>savefig\<close> raises; the built-in charts catch it.\<close>

definition safe_name :: "string \<Rightarrow> string" where
  "safe_name filename_base = replace [CHR 0x5C] [] (replace ''/'' [] (replace '' '' ''_'' filename_base))"

definition save_plot :: "renderer \<Rightarrow> analyzer \<Rightarrow> string \<Rightarrow> string \<Rightarrow> plot_code \<Rightarrow> exn + analyzer" where
  "save_plot r a title filename_base code =
     (let base = safe_name filename_base;
          filename = base @ ''.png'';
          filepath = path_join (charts_dir a) filename
      in case savefig r filepath title of
           Inl e \<Rightarrow> Inl e
         | Inr _ \<Rightarrow>
             Inr (a\<lparr>charts := charts a @
               [\<lparr>chart_type = ''basic'', chart_title = title, chart_filename = filename,
                 chart_filepath = filepath, chart_description = title, chart_code = code\<rparr>]\<rparr>))"

definition create_histogram :: "renderer \<Rightarrow> analyzer \<Rightarrow> col_label \<Rightarrow> analyzer" where
  "create_histogram r a col =
     (case histplot r (df a) col of
        Inl e \<Rightarrow> a
      | Inr _ \<Rightarrow>
          (case save_plot r a (''Distribution of '' @ str_label col) (''hist_'' @ str_label col)
                  (Hist_template col) of
             Inl e \<Rightarrow> a
           | Inr a' \<Rightarrow> a'))"

definition create_bar_chart :: "renderer \<Rightarrow> analyzer \<Rightarrow> col_label \<Rightarrow> analyzer" where
  "create_bar_chart r a col =
     (case countplot r (df a) col of
        Inl e \<Rightarrow> a
      | Inr _ \<Rightarrow>
          (case save_plot r a (''Top categories in '' @ str_label col) (''bar_'' @ str_label col)
                  (Bar_template col) of
             Inl e \<Rightarrow> a
           | Inr a' \<Rightarrow> a'))"

definition create_boxplot :: "renderer \<Rightarrow> analyzer \<Rightarrow> col_label list \<Rightarrow> analyzer" where
  "create_boxplot r a numeric_cols =
     (let cols_to_plot = take 5 numeric_cols
      in case boxplot r (df a) cols_to_plot of
           Inl e \<Rightarrow> a
         | Inr _ \<Rightarrow>
             (case save_plot r a ''Box Plot Distribution'' ''boxplot_comparison''
                     (Box_template cols_to_plot) of
                Inl e \<Rightarrow> a
              | Inr a' \<Rightarrow> a'))"

text \<open>
  The five slots of \<open>analyze\<close>, each a step on the analyzer and the local variable
  \<open>count\<close>. In slots 1 and 5 the \<open>try ... except Exception: pass\<close> has no instance of
  \<open>Exception\<close> to catch (\<open>generate_chart_code\<close> and \<open>_execute_plot_code\<close> catch them
  themselves), so when \<open>_execute_plot_code\<close> returns, whatever it returns, the statement
  after the call, \<open>count += 1\<close>, runs. An exit passes this handler too and ends the run.
\<close>

definition slot_heatmap :: "renderer \<Rightarrow> analyzer \<times> nat \<Rightarrow> exit option \<times> analyzer \<times> nat" where
  "slot_heatmap r st =
     (let a = fst st; count = snd st; numeric_cols = select_number (df a)
      in if length numeric_cols > 1 \<and> count < 5 then
           (case generate_chart_code (llm a) (Context ''Numeric columns: '' numeric_cols [])
                   (Col_list numeric_cols) ''Correlation Heatmap'' of
              None \<Rightarrow> (None, a, count)
            | Some code \<Rightarrow>
                if code \<noteq> [] then
                  (case execute_plot_code r a code ''Correlation Heatmap'' ''correlation_heatmap'' of
                     (Returned ok, a') \<Rightarrow> (None, a', count + 1)
                   | (Propagated x, a') \<Rightarrow> (Some x, a', count))
                else (None, a, count))
         else (None, a, count))"

definition slot_histogram :: "renderer \<Rightarrow> analyzer \<times> nat \<Rightarrow> analyzer \<times> nat" where
  "slot_histogram r st =
     (let a = fst st; count = snd st; numeric_cols = select_number (df a)
      in if length numeric_cols > 0 \<and> count < 5
         then (create_histogram r a (hd numeric_cols), count + 1)
         else (a, count))"

definition slot_bar :: "renderer \<Rightarrow> analyzer \<times> nat \<Rightarrow> analyzer \<times> nat" where
  "slot_bar r st =
     (let a = fst st; count = snd st; categorical_cols = select_object (df a)
      in if length categorical_cols > 0 \<and> count < 5
         then (create_bar_chart r a (hd categorical_cols), count + 1)
         else (a, count))"

definition slot_boxplot :: "renderer \<Rightarrow> analyzer \<times> nat \<Rightarrow> analyzer \<times> nat" where
  "slot_boxplot r st =
     (let a = fst st; count = snd st; numeric_cols = select_number (df a)
      in if length numeric_cols > 0 \<and> count < 5
         then (create_boxplot r a (take 5 numeric_cols), count + 1)
         else (a, count))"

definition slot_relationship :: "renderer \<Rightarrow> analyzer \<times> nat \<Rightarrow> exit option \<times> analyzer \<times> nat" where
  "slot_relationship r st =
     (let a = fst st; count = snd st; numeric_cols = select_number (df a)
      in if length numeric_cols > 1 \<and> count < 5 then
           (case generate_chart_code (llm a)
                   (Context ''Find an interesting relationship between these columns: '' numeric_cols ''.'')
                   (Col_list numeric_cols) ''Scatter Plot or Line Chart'' of
              None \<Rightarrow> (None, a, count)
            | Some code \<Rightarrow>
                if code \<noteq> [] then
                  (case execute_plot_code r a code ''Key Relationship Analysis'' ''ai_relationship_plot'' of
                     (Returned ok, a') \<Rightarrow> (None, a', count + 1)
                   | (Propagated x, a') \<Rightarrow> (Some x, a', count))
                else (None, a, count))
         else (None, a, count))"

text \<open>The slots in program order; an exit out of slot 1 leaves the other four unrun.\<close>

definition analyze_run :: "renderer \<Rightarrow> analyzer \<Rightarrow> exit option \<times> analyzer \<times> nat" where
  "analyze_run r a =
     (case slot_heatmap r (a, 0) of
        (Some x, st) \<Rightarrow> (Some x, st)
      | (None, st) \<Rightarrow> slot_relationship r (slot_boxplot r (slot_bar r (slot_histogram r st))))"

definition analyze :: "renderer \<Rightarrow> analyzer \<Rightarrow> chart list outcome" where
  "analyze r a =
     (case analyze_run r a of
        (Some x, st) \<Rightarrow> Propagated x
      | (None, st) \<Rightarrow> Returned (charts (fst st)))"

text \<open>
  \<open>create_custom_chart\<close>, the on-demand sibling of slots 1 and 5: it reports a chart only
  when \<open>_execute_plot_code\<close> returned \<open>True\<close>. \<open>if y_col\<close> holds for a label that is neither
  \<open>None\<close>, nor the empty text, nor the number 0.
\<close>

definition truthy_label :: "col_label option \<Rightarrow> bool" where
  "truthy_label y = (case y of None \<Rightarrow> False | Some (LStr s) \<Rightarrow> s \<noteq> [] | Some (LInt i) \<Rightarrow> i \<noteq> 0)"

definition create_custom_chart ::
  "renderer \<Rightarrow> analyzer \<Rightarrow> col_label \<Rightarrow> col_label option \<Rightarrow> string
     \<Rightarrow> (string \<times> string) option outcome \<times> analyzer" where
  "create_custom_chart r a x_col y_col chart_type' =
     (let cols = str_label x_col @ (if truthy_label y_col then '', '' @ str_label (the y_col) else [])
      in case generate_chart_code (llm a) (Context ''Columns available: '' (map label (columns (df a))) [])
                (Col_text cols) chart_type' of
           None \<Rightarrow> (Returned None, a)
         | Some code \<Rightarrow>
             if code \<noteq> [] then
               (let filename = replace '' '' ''_'' (''custom_'' @ str_label x_col @ ''_'' @ chart_type' @ ''.png'')
                in case execute_plot_code r a code (chart_type' @ '' of '' @ cols)
                          (replace ''.png'' [] filename) of
                     (Returned ok, a') \<Rightarrow> (Returned (if ok then Some (filename, code) else None), a')
                   | (Propagated x, a') \<Rightarrow> (Propagated x, a'))
             else (Returned None, a))"

text \<open>
  Examples: a data set with two numeric columns and one text column, and one with two
  numeric columns and a boolean column, which the profiler lists as categorical.
\<close>

definition sales_df :: dataframe where
  "sales_df = \<lparr>nrows = 3, columns =
     [\<lparr>label = LStr ''price'', dtype = Float64, cells = [Num 1, Num 2, Num 3]\<rparr>,
      \<lparr>label = LStr ''units'', dtype = Int64, cells = [Num 5, Num 7, Num 9]\<rparr>,
      \<lparr>label = LStr ''region'', dtype = Object, cells = [Txt ''north'', Txt ''south'', Txt ''north'']\<rparr>]\<rparr>"

definition members_df :: dataframe where
  "members_df = \<lparr>nrows = 3, columns =
     [\<lparr>label = LStr ''price'', dtype = Float64, cells = [Num 1, Num 2, Num 3]\<rparr>,
      \<lparr>label = LStr ''units'', dtype = Int64, cells = [Num 5, Num 7, Num 9]\<rparr>,
      \<lparr>label = LStr ''member'', dtype = Bool, cells = [Num 1, Num 0, Num 1]\<rparr>]\<rparr>"

text \<open>
  A renderer for the examples. Of the texts it is given, \<open>plt.plot([1, 2, 3])\<close> draws a
  line, \<open>raise SystemExit(1)\<close> exits, and \<open>plot_heatmap(df)\<close>, like any other text, calls a
  name that is not defined; saving and the built-in charts succeed.
\<close>

definition demo_renderer :: renderer where
  "demo_renderer =
     \<lparr>exec_code = (\<lambda>code d.
          if code = ''plt.plot([1, 2, 3])'' then Inr ()
          else if code = ''raise SystemExit(1)'' then Inl (Exits (SystemExit ''1''))
          else Inl (Raises (Exception ''NameError''))),
      savefig = (\<lambda>path title. Inr ()),
      histplot = (\<lambda>d c. Inr ()), countplot = (\<lambda>d c. Inr ()), boxplot = (\<lambda>d cs. Inr ())\<rparr>"

text \<open>Three generators: one whose instruction renders, one whose instruction raises, one that
  returns nothing.\<close>

definition helpful_llm :: llm_client where
  "helpful_llm = \<lparr>available = True, make_request = (\<lambda>p. Some ''plt.plot([1, 2, 3])'')\<rparr>"

definition careless_llm :: llm_client where
  "careless_llm = \<lparr>available = True, make_request = (\<lambda>p. Some ''plot_heatmap(df)'')\<rparr>"

definition silent_llm :: llm_client where
  "silent_llm = \<lparr>available = True, make_request = (\<lambda>p. None)\<rparr>"

definition fresh :: analyzer where
  "fresh = new_analyzer ''temp'' helpful_llm sales_df ''s1''"

text \<open>
  The renders of an automatic run succeed. For the built-in charts these are the three
  plotting calls on the first numeric column, the first text column and the first five
  numeric columns, and the saving of each figure under its file name and title.
\<close>

definition builtin_renders_ok :: "renderer \<Rightarrow> analyzer \<Rightarrow> bool" where
  "builtin_renders_ok r a =
     (let num = hd (select_number (df a)); cat = hd (select_object (df a))
      in histplot r (df a) num = Inr ()
         \<and> savefig r (path_join (charts_dir a) (safe_name (''hist_'' @ str_label num) @ ''.png''))
              (''Distribution of '' @ str_label num) = Inr ()
         \<and> countplot r (df a) cat = Inr ()
         \<and> savefig r (path_join (charts_dir a) (safe_name (''bar_'' @ str_label cat) @ ''.png''))
              (''Top categories in '' @ str_label cat) = Inr ()
         \<and> boxplot r (df a) (take 5 (select_number (df a))) = Inr ()
         \<and> savefig r (path_join (charts_dir a) (safe_name ''boxplot_comparison'' @ ''.png''))
              ''Box Plot Distribution'' = Inr ())"

text \<open>
  For the two generated charts: the instruction the generator returned for the request, if
  it returned one that is not empty, runs on the data set, and the figure is saved under the
  slot's file name and title.
\<close>

definition rendered :: "renderer \<Rightarrow> analyzer \<Rightarrow> string option \<Rightarrow> string \<Rightarrow> string \<Rightarrow> bool" where
  "rendered r a reply title filename_base =
     (case reply of
        None \<Rightarrow> True
      | Some code \<Rightarrow>
          code = []
          \<or> (exec_code r code (df a) = Inr ()
              \<and> savefig r (path_join (charts_dir a) (filename_base @ ''.png'')) title = Inr ()))"

definition generated_renders_ok :: "renderer \<Rightarrow> analyzer \<Rightarrow> bool" where
  "generated_renders_ok r a =
     (let numeric_cols = select_number (df a)
      in rendered r a
           (generate_chart_code (llm a) (Context ''Numeric columns: '' numeric_cols [])
              (Col_list numeric_cols) ''Correlation Heatmap'')
           ''Correlation Heatmap'' ''correlation_heatmap''
         \<and> rendered r a
           (generate_chart_code (llm a)
              (Context ''Find an interesting relationship between these columns: '' numeric_cols ''.'')
              (Col_list numeric_cols) ''Scatter Plot or Line Chart'')
           ''Key Relationship Analysis'' ''ai_relationship_plot'')"

text \<open>The chart a generator reply leads to: \<open>if code:\<close> skips \<open>None\<close> and the empty text.\<close>

definition generated :: "string option \<Rightarrow> plot_code list" where
  "generated reply = (case reply of None \<Rightarrow> [] | Some code \<Rightarrow> if code \<noteq> [] then [Generated code] else [])"

text \<open>The \<open>code\<close> entries of the charts a run returned; \<open>None\<close> when it did not return.\<close>

definition chart_codes :: "chart list outcome \<Rightarrow> plot_code list option" where
  "chart_codes res = (case res of Returned chs \<Rightarrow> Some (map chart_code chs) | Propagated x \<Rightarrow> None)"

definition chart_count :: "chart list outcome \<Rightarrow> nat option" where
  "chart_count res = (case res of Returned chs \<Rightarrow> Some (length chs) | Propagated x \<Rightarrow> None)"


section \<open>Cleaner (core/cleaner.py)\<close>

text \<open>
  The cleaning report is a list of texts built by f-strings; an entry is modelled by the
  branch that wrote it and the values it prints.
\<close>

datatype missing_note =
  Kept_as_is col_label nat rat
| Filled_median col_label nat cell
| Filled_unknown col_label nat
| Filled_mode col_label nat cell

datatype report_entry =
  Standardize_warning exn
| Removed_duplicates nat
| No_duplicates
| Fixed_types "col_label list"
| Types_appropriate
| Handled_missing "missing_note list"
| No_missing
| Removed_empty nat nat
| Outliers_detected "(col_label \<times> nat \<times> rat) list"
| No_outliers

text \<open>
  What the cleaner takes from pandas without fixing it here: \<open>Index.astype(str)\<close> on the
  column labels, which may raise, the reading of a text as a number by
  \<open>pd.to_numeric\<close> (\<open>None\<close>: not a number, coerced to \<open>NaN\<close>), and the rounding of the
  result of an arithmetic operation to the nearest 64-bit float.
\<close>

record pandas_lib =
  astype_str :: "col_label list \<Rightarrow> exn + col_label list"
  parse_numeric :: "string \<Rightarrow> rat option"
  round_float :: "rat \<Rightarrow> rat"

record data_cleaner =
  cleaner_df :: dataframe
  cleaning_report :: "report_entry list"

definition new_cleaner :: "dataframe \<Rightarrow> data_cleaner" where
  "new_cleaner d = \<lparr>cleaner_df = d, cleaning_report = []\<rparr>"

definition append_report :: "report_entry \<Rightarrow> data_cleaner \<Rightarrow> data_cleaner" where
  "append_report e c = c\<lparr>cleaning_report := cleaning_report c @ [e]\<rparr>"

subsection \<open>Step 0: column names\<close>

text \<open>Assigning a list of another length to \<open>df.columns\<close> raises, inside the same \<open>try\<close>.\<close>

definition standardize_columns :: "pandas_lib \<Rightarrow> data_cleaner \<Rightarrow> data_cleaner" where
  "standardize_columns pd c =
     (case astype_str pd (map label (columns (cleaner_df c))) of
        Inl e \<Rightarrow> append_report (Standardize_warning e) c
      | Inr names \<Rightarrow>
          if length names = length (columns (cleaner_df c))
          then c\<lparr>cleaner_df := (cleaner_df c)\<lparr>columns :=
                   map (\<lambda>(col, n). col\<lparr>label := n\<rparr>) (zip (columns (cleaner_df c)) names)\<rparr>\<rparr>
          else append_report (Standardize_warning (Exception ''Length mismatch'')) c)"

subsection \<open>Step 1: duplicate rows\<close>

definition rows :: "dataframe \<Rightarrow> cell list list" where
  "rows d = map (\<lambda>i. map (\<lambda>c. cells c ! i) (columns d)) [0..<nrows d]"

text \<open>Keeping the rows a mask selects (\<open>df[mask]\<close>).\<close>

definition select_cells :: "bool list \<Rightarrow> 'a list \<Rightarrow> 'a list" where
  "select_cells keep xs = map fst (filter snd (zip xs keep))"

definition select_rows :: "bool list \<Rightarrow> dataframe \<Rightarrow> dataframe" where
  "select_rows keep d =
     d\<lparr>nrows := length (filter id keep),
       columns := map (\<lambda>c. c\<lparr>cells := select_cells keep (cells c)\<rparr>) (columns d)\<rparr>"

text \<open>\<open>~df.duplicated()\<close>: a row is kept when no earlier row equals it (missing equals missing).\<close>

fun first_seen :: "'a list \<Rightarrow> 'a list \<Rightarrow> bool list" where
  "first_seen seen [] = []"
| "first_seen seen (x # xs) = (x \<notin> set seen) # first_seen (x # seen) xs"

text \<open>\<open>DataFrame.drop_duplicates\<close> returns a copy of an empty frame.\<close>

definition drop_duplicates :: "dataframe \<Rightarrow> dataframe" where
  "drop_duplicates d = (if empty_df d then d else select_rows (first_seen [] (rows d)) d)"

definition remove_duplicates :: "data_cleaner \<Rightarrow> data_cleaner" where
  "remove_duplicates c =
     (let initial_count = nrows (cleaner_df c);
          d = drop_duplicates (cleaner_df c);
          duplicates_removed = initial_count - nrows d
      in append_report (if duplicates_removed > 0 then Removed_duplicates duplicates_removed else No_duplicates)
           (c\<lparr>cleaner_df := d\<rparr>))"

subsection \<open>Step 2: data types\<close>

text \<open>\<open>pd.to_numeric(series, errors='coerce')\<close> on one cell.\<close>

definition to_numeric :: "pandas_lib \<Rightarrow> cell \<Rightarrow> cell" where
  "to_numeric pd x =
     (case x of
        NaN \<Rightarrow> NaN
      | Num v \<Rightarrow> Num v
      | Txt s \<Rightarrow> (case parse_numeric pd s of None \<Rightarrow> NaN | Some v \<Rightarrow> Num v))"

text \<open>
  The stored type of the converted column: when every cell is a whole number, \<open>int64\<close> if
  they all lie in its range and \<open>uint64\<close> if one is \<open>2^63\<close> or more and they all lie in the
  range of that type; \<open>float64\<close> otherwise. (pandas also gives \<open>float64\<close> to whole numbers
  written with a decimal point; the code treats \<open>int64\<close> and \<open>float64\<close> alike everywhere.)
\<close>

definition is_whole :: "cell \<Rightarrow> bool" where
  "is_whole x = (case x of Num v \<Rightarrow> v = of_int \<lfloor>v\<rfloor> | _ \<Rightarrow> False)"

definition in_range :: "rat \<Rightarrow> rat \<Rightarrow> cell \<Rightarrow> bool" where
  "in_range lo hi x = (case x of Num v \<Rightarrow> lo \<le> v \<and> v < hi | _ \<Rightarrow> True)"

definition numeric_dtype_of :: "cell list \<Rightarrow> dtype" where
  "numeric_dtype_of xs =
     (if list_all is_whole xs then
        (if list_all (in_range (- (2 ^ 63)) (2 ^ 63)) xs then Int64
         else if list_all (in_range 0 (2 ^ 64)) xs then UInt64
         else Float64)
      else Float64)"

text \<open>
  One iteration of the loop of \<open>_fix_data_types\<close>: the column after it, and whether its
  type changed. The source divides two counts in floating point and compares with \<open>0.7\<close>;
  the nearest float to 7/10 is the quotient of every pair of counts in the ratio 7 to 10,
  and lies below every larger quotient of counts under \<open>10^15\<close>, so the exact comparison here
  is the same test. A zero row count gives \<open>nan > 0.7\<close> in the source and \<open>0 > 7/10\<close> here:
  both false.
\<close>

definition fix_column :: "pandas_lib \<Rightarrow> nat \<Rightarrow> column \<Rightarrow> column \<times> bool" where
  "fix_column pd total_count col =
     (if dtype col = Object then
        (let numeric_col = map (to_numeric pd) (cells col);
             non_null_count = length (filter notna numeric_col)
         in if (of_nat non_null_count :: rat) / of_nat total_count > 7 / 10
            then (col\<lparr>cells := numeric_col, dtype := numeric_dtype_of numeric_col\<rparr>, True)
            else (col, False))
      else (col, False))"

definition fix_data_types :: "pandas_lib \<Rightarrow> data_cleaner \<Rightarrow> data_cleaner" where
  "fix_data_types pd c =
     (let d = cleaner_df c;
          fixed = map (fix_column pd (nrows d)) (columns d);
          type_changes = map (label \<circ> fst) (filter snd fixed)
      in append_report (if type_changes \<noteq> [] then Fixed_types type_changes else Types_appropriate)
           (c\<lparr>cleaner_df := d\<lparr>columns := map fst fixed\<rparr>\<rparr>))"

subsection \<open>Step 3: missing values\<close>

definition num_values :: "cell list \<Rightarrow> rat list" where
  "num_values xs = concat (map (\<lambda>x. case x of Num v \<Rightarrow> [v] | _ \<Rightarrow> []) xs)"

text \<open>
  \<open>Series.median()\<close>: missing values skipped; \<open>NaN\<close> when nothing is left. For an even
  number of values it is the mean of the two middle ones as 64-bit floats compute it: their
  sum is rounded, and halving a float is exact.
\<close>

definition median :: "pandas_lib \<Rightarrow> cell list \<Rightarrow> cell" where
  "median pd xs =
     (let s = sort (num_values xs); n = length s
      in if n = 0 then NaN
         else if odd n then Num (s ! (n div 2))
         else Num (round_float pd (s ! (n div 2 - 1) + s ! (n div 2)) / 2))"

definition fillna :: "cell \<Rightarrow> cell list \<Rightarrow> cell list" where
  "fillna v xs = map (\<lambda>x. if isna x then v else x) xs"

text \<open>
  \<open>Series.mode()[0]\<close>: the most frequent value; \<open>None\<close> when \<open>mode()\<close> is empty. On a tie
  \<open>mode()\<close> sorts the most frequent values, so the first is the smallest, numbers by size
  and texts as Python compares them; when they are numbers and texts together the sort
  fails, \<open>mode()\<close> leaves them in the order of their first appearance, and the first is the
  one that appears first in the column.
\<close>

fun cell_less :: "cell \<Rightarrow> cell \<Rightarrow> bool" where
  "cell_less (Num a) (Num b) = (a < b)"
| "cell_less (Txt s) (Txt t) = (s < t)"
| "cell_less x y = False"

definition sortable :: "cell list \<Rightarrow> bool" where
  "sortable ms = (list_all (\<lambda>x. case x of Num v \<Rightarrow> True | _ \<Rightarrow> False) ms
                  \<or> list_all (\<lambda>x. case x of Txt t \<Rightarrow> True | _ \<Rightarrow> False) ms)"

definition mode :: "cell list \<Rightarrow> cell option" where
  "mode xs =
     (let vs = filter notna xs;
          best = foldr (\<lambda>v m. max (count_list vs v) m) vs 0;
          modes = filter (\<lambda>v. count_list vs v = best) vs
      in case modes of
           [] \<Rightarrow> None
         | m # ms \<Rightarrow>
             Some (if sortable modes then foldl (\<lambda>a b. if cell_less b a then b else a) m ms else m))"

definition missing_count :: "column \<Rightarrow> nat" where
  "missing_count col = length (filter isna (cells col))"

text \<open>
  One iteration of the loop of \<open>_handle_missing_values\<close>: the column after it and the line
  it adds to \<open>missing_info\<close>. \<open>(missing_count / len(self.df)) * 100 > 50\<close> is computed in
  floating point; half the rows missing gives exactly \<open>50.0\<close>, and the float result lies on
  the same side of 50 as the exact one for every row count below \<open>2^52\<close>.
\<close>

definition handle_missing_column :: "pandas_lib \<Rightarrow> nat \<Rightarrow> column \<Rightarrow> column \<times> missing_note option" where
  "handle_missing_column pd n col =
     (let missing = missing_count col
      in if missing > 0 then
           (let missing_pct = (of_nat missing :: rat) / of_nat n * 100
            in if missing_pct > 50 then (col, Some (Kept_as_is (label col) missing missing_pct))
               else if is_int64_or_float64 (dtype col) then
                 (let median_val = median pd (cells col)
                  in (col\<lparr>cells := fillna median_val (cells col)\<rparr>,
                      Some (Filled_median (label col) missing median_val)))
               else
                 (case mode (cells col) of
                    None \<Rightarrow> (col\<lparr>cells := fillna (Txt ''Unknown'') (cells col)\<rparr>,
                              Some (Filled_unknown (label col) missing))
                  | Some mode_val \<Rightarrow> (col\<lparr>cells := fillna mode_val (cells col)\<rparr>,
                                      Some (Filled_mode (label col) missing mode_val))))
         else (col, None))"

text \<open>The list \<open>missing_info\<close> at the end of the loop: the lines in column order.\<close>

definition missing_info :: "pandas_lib \<Rightarrow> dataframe \<Rightarrow> missing_note list" where
  "missing_info pd d =
     concat (map (\<lambda>col. case snd (handle_missing_column pd (nrows d) col) of
                           None \<Rightarrow> [] | Some note \<Rightarrow> [note]) (columns d))"

definition handle_missing_values :: "pandas_lib \<Rightarrow> data_cleaner \<Rightarrow> data_cleaner" where
  "handle_missing_values pd c =
     (let d = cleaner_df c;
          handled = map (handle_missing_column pd (nrows d)) (columns d)
      in append_report (if missing_info pd d \<noteq> [] then Handled_missing (missing_info pd d) else No_missing)
           (c\<lparr>cleaner_df := d\<lparr>columns := map fst handled\<rparr>\<rparr>))"

subsection \<open>Step 4: empty rows and columns\<close>

text \<open>\<open>dropna(how='all')\<close> keeps what has a value; \<open>dropna(axis=1, how='all')\<close> likewise.\<close>

definition drop_empty_rows :: "dataframe \<Rightarrow> dataframe" where
  "drop_empty_rows d = select_rows (map (list_ex notna) (rows d)) d"

definition drop_empty_columns :: "dataframe \<Rightarrow> dataframe" where
  "drop_empty_columns d = d\<lparr>columns := filter (\<lambda>c. list_ex notna (cells c)) (columns d)\<rparr>"

definition remove_empty :: "data_cleaner \<Rightarrow> data_cleaner" where
  "remove_empty c =
     (let initial_rows = nrows (cleaner_df c);
          d1 = drop_empty_rows (cleaner_df c);
          empty_rows = initial_rows - nrows d1;
          initial_cols = length (columns d1);
          d2 = drop_empty_columns d1;
          empty_cols = initial_cols - length (columns d2);
          c2 = c\<lparr>cleaner_df := d2\<rparr>
      in if empty_rows > 0 \<or> empty_cols > 0 then append_report (Removed_empty empty_rows empty_cols) c2
         else c2)"

subsection \<open>Step 5: outliers\<close>

text \<open>
  \<open>Series.quantile(q)\<close>, linear interpolation between the two neighbouring values, each
  operation rounded as 64-bit floats round it; \<open>None\<close> is the \<open>NaN\<close> of an empty column.
  The position \<open>(n - 1) * q\<close> is exact for the two quarters used.
\<close>

definition quantile :: "pandas_lib \<Rightarrow> rat \<Rightarrow> cell list \<Rightarrow> rat option" where
  "quantile pd q xs =
     (let s = sort (num_values xs); n = length s
      in if n = 0 then None
         else
           (let pos = of_nat (n - 1) * q;
                lo = nat \<lfloor>pos\<rfloor>;
                hi = min (lo + 1) (n - 1);
                frac = pos - of_nat lo
            in Some (round_float pd (s ! lo + round_float pd (frac * round_float pd (s ! hi - s ! lo))))))"

text \<open>The number of outliers of a column; every comparison with \<open>NaN\<close> is false.\<close>

definition count_outliers :: "pandas_lib \<Rightarrow> cell list \<Rightarrow> nat" where
  "count_outliers pd xs =
     (case (quantile pd (1 / 4) xs, quantile pd (3 / 4) xs) of
        (Some q1, Some q3) \<Rightarrow>
          (let iqr = round_float pd (q3 - q1);
               lower_bound = round_float pd (q1 - round_float pd (3 / 2 * iqr));
               upper_bound = round_float pd (q3 + round_float pd (3 / 2 * iqr))
           in length (filter (\<lambda>v. v < lower_bound \<or> v > upper_bound) (num_values xs)))
      | _ \<Rightarrow> 0)"

definition detect_outliers :: "pandas_lib \<Rightarrow> data_cleaner \<Rightarrow> data_cleaner" where
  "detect_outliers pd c =
     (let d = cleaner_df c;
          numeric_cols = filter (\<lambda>col. is_np_number (dtype col)) (columns d);
          outlier_info = concat (map (\<lambda>col.
              let outliers = count_outliers pd (cells col)
              in if outliers > 0
                 then [(label col, outliers, (of_nat outliers :: rat) / of_nat (nrows d) * 100)]
                 else []) numeric_cols)
      in append_report (if outlier_info \<noteq> [] then Outliers_detected outlier_info else No_outliers) c)"

subsection \<open>The pipeline\<close>

definition clean_run :: "pandas_lib \<Rightarrow> dataframe \<Rightarrow> data_cleaner" where
  "clean_run pd d =
     detect_outliers pd (remove_empty (handle_missing_values pd (fix_data_types pd
       (remove_duplicates (standardize_columns pd (new_cleaner d))))))"

definition clean :: "pandas_lib \<Rightarrow> dataframe \<Rightarrow> dataframe \<times> report_entry list" where
  "clean pd d = (cleaner_df (clean_run pd d), cleaning_report (clean_run pd d))"

text \<open>
  A pandas for the examples: labels become their text, and a text of decimal digits is the
  number it writes. The numbers of the examples are small whole numbers and halves, which
  a 64-bit float holds exactly, so rounding returns its argument.
\<close>

definition is_digit :: "char \<Rightarrow> bool" where
  "is_digit c = (48 \<le> (of_char c :: nat) \<and> (of_char c :: nat) \<le> 57)"

definition parse_digits :: "string \<Rightarrow> rat option" where
  "parse_digits s =
     (if s \<noteq> [] \<and> list_all is_digit s
      then Some (of_nat (foldl (\<lambda>a c. 10 * a + (of_char c - 48)) 0 s))
      else None)"

definition pandas :: pandas_lib where
  "pandas = \<lparr>astype_str = (\<lambda>ls. Inr (map (LStr \<circ> str_label) ls)), parse_numeric = parse_digits,
              round_float = (\<lambda>x. x)\<rparr>"


section \<open>Orchestrator (core/agent.py) and result store (core/storage.py)\<close>

datatype status = Uploaded | Analyzing | Completed | Error

record session_info =
  filename :: string
  filepath :: string
  status :: status

datatype stage = Load_stage | Clean_stage | Profile_stage | Chart_stage | Narrative_stage | Report_stage

text \<open>What a run does to the outside, in program order.\<close>

datatype effect =
  Status_set status
| Stage_run stage
| Dataset_saved string
| Result_saved string

text \<open>
  The store: the \<open>sessions\<close> table, the files of the session folders (saved data sets by
  session and suffix, results by session and kind), what reading an uploaded file yields
  (\<open>None\<close> when \<open>pd.read_csv\<close>/\<open>pd.read_excel\<close> raises), and whether a session folder can
  be written. \<open>journal\<close> records the effects in the order they happen. Database updates
  are taken to succeed.
\<close>

record storage =
  sessions :: "string \<Rightarrow> session_info option"
  datasets :: "string \<times> string \<Rightarrow> dataframe option"
  results :: "string \<times> string \<Rightarrow> string option"
  uploads :: "string \<Rightarrow> dataframe option"
  writable :: "string \<Rightarrow> bool"
  journal :: "effect list"

definition record_effect :: "effect \<Rightarrow> storage \<Rightarrow> storage" where
  "record_effect e st = st\<lparr>journal := journal st @ [e]\<rparr>"

definition get_session :: "storage \<Rightarrow> string \<Rightarrow> session_info option" where
  "get_session st sid = sessions st sid"

text \<open>\<open>UPDATE sessions SET status = ? WHERE session_id = ?\<close>: no row, no change.\<close>

definition update_session_status :: "storage \<Rightarrow> string \<Rightarrow> status \<Rightarrow> storage" where
  "update_session_status st sid s =
     record_effect (Status_set s)
       (st\<lparr>sessions := (sessions st)(sid := map_option (\<lambda>i. i\<lparr>status := s\<rparr>) (sessions st sid))\<rparr>)"

text \<open>Both save operations catch every exception, print it, and go on.\<close>

definition save_analysis_result :: "storage \<Rightarrow> string \<Rightarrow> string \<Rightarrow> string \<Rightarrow> storage" where
  "save_analysis_result st sid result_type result_data =
     (if writable st sid
      then record_effect (Result_saved result_type) (st\<lparr>results := (results st)((sid, result_type) \<mapsto> result_data)\<rparr>)
      else st)"

definition save_dataframe :: "storage \<Rightarrow> dataframe \<Rightarrow> string \<Rightarrow> string \<Rightarrow> storage" where
  "save_dataframe st d sid suffix =
     (if writable st sid
      then record_effect (Dataset_saved suffix) (st\<lparr>datasets := (datasets st)((sid, suffix) \<mapsto> d)\<rparr>)
      else st)"

definition lower_char :: "char \<Rightarrow> char" where
  "lower_char c = (let n = (of_char c :: nat) in if 65 \<le> n \<and> n \<le> 90 then char_of (n + 32) else c)"

text \<open>\<open>filepath.rsplit('.', 1)[1].lower()\<close>; \<open>None\<close> is the \<open>IndexError\<close> of a path with no dot.\<close>

definition file_ext :: "string \<Rightarrow> string option" where
  "file_ext path =
     (if CHR ''.'' \<in> set path
      then Some (map lower_char (rev (takeWhile (\<lambda>c. c \<noteq> CHR ''.'') (rev path))))
      else None)"

definition load_dataframe :: "storage \<Rightarrow> string \<Rightarrow> dataframe option" where
  "load_dataframe st path =
     (case file_ext path of
        None \<Rightarrow> None
      | Some ext \<Rightarrow>
          if ext = ''csv'' then uploads st path
          else if ext = ''xlsx'' \<or> ext = ''xls'' then uploads st path
          else None)"

text \<open>
  The stages the agent sequences are parameters, each of which may raise: the cleaner
  (\<open>DataCleaner(df).clean()\<close> with its report), the profiler (the profile and its summary
  text), the chart engine (\<open>DataAnalyzer(cleaned_df, session_id).analyze()\<close>), the narrative
  step (the two \<open>json.dumps\<close> that build the prompts and the three generator calls), the
  report generator, and the three \<open>json.dumps\<close> of the persist step. What a stage raises
  here is an instance of \<open>Exception\<close>, which the \<open>except Exception\<close> of \<open>run_analysis\<close>
  catches. An exit out of a generated chart instruction passes that handler as it passes
  those of the chart engine: \<open>run_analysis\<close> then returns nothing, and such a run is not
  among the runs described here.
\<close>

record collaborators =
  cleaner :: "dataframe \<Rightarrow> exn + dataframe \<times> report_entry list"
  profiler :: "dataframe \<Rightarrow> exn + string \<times> string"
  chart_engine :: "dataframe \<Rightarrow> string \<Rightarrow> exn + chart list"
  narrator :: "string \<Rightarrow> report_entry list \<Rightarrow> string \<Rightarrow> string \<Rightarrow> exn + string \<times> string \<times> string"
  report_generator :: "string \<Rightarrow> string \<Rightarrow> string \<Rightarrow> report_entry list \<Rightarrow> chart list
                         \<Rightarrow> string \<times> string \<times> string \<Rightarrow> exn + string"
  dumps_profile :: "string \<Rightarrow> exn + string"
  dumps_charts :: "chart list \<Rightarrow> exn + string"
  dumps_report :: "string \<Rightarrow> exn + string"

record agent =
  agent_session_id :: string
  agent_filename :: "string option"
  agent_filepath :: "string option"

definition new_agent :: "storage \<Rightarrow> string \<Rightarrow> agent" where
  "new_agent st sid =
     (case get_session st sid of
        Some info \<Rightarrow> \<lparr>agent_session_id = sid, agent_filename = Some (filename info),
                      agent_filepath = Some (filepath info)\<rparr>
      | None \<Rightarrow> \<lparr>agent_session_id = sid, agent_filename = None, agent_filepath = None\<rparr>)"

text \<open>Step 7, after the report is built; a \<open>json.dumps\<close> that raises ends it there.\<close>

definition persist_results ::
  "collaborators \<Rightarrow> string \<Rightarrow> string \<Rightarrow> chart list \<Rightarrow> string \<Rightarrow> string \<Rightarrow> storage \<Rightarrow> exn option \<times> storage" where
  "persist_results env sid profile chs insights report st =
     (case dumps_profile env profile of
        Inl e \<Rightarrow> (Some e, st)
      | Inr pj \<Rightarrow>
          (let st1 = save_analysis_result st sid ''profile'' pj in
           case dumps_charts env chs of
             Inl e \<Rightarrow> (Some e, st1)
           | Inr cj \<Rightarrow>
               (let st2 = save_analysis_result st1 sid ''charts'' cj;
                    st3 = save_analysis_result st2 sid ''insights'' insights in
                case dumps_report env report of
                  Inl e \<Rightarrow> (Some e, st3)
                | Inr rj \<Rightarrow>
                    (None, update_session_status (save_analysis_result st3 sid ''report'' rj) sid Completed))))"

text \<open>Steps 3 to 6, from the cleaned data set on.\<close>

definition analyze_cleaned ::
  "collaborators \<Rightarrow> string \<Rightarrow> string \<Rightarrow> dataframe \<Rightarrow> report_entry list \<Rightarrow> storage \<Rightarrow> exn option \<times> storage" where
  "analyze_cleaned env sid fname cleaned rep st =
     (let st1 = record_effect (Stage_run Profile_stage) st in
      case profiler env cleaned of
        Inl e \<Rightarrow> (Some e, st1)
      | Inr (profile, summary_text) \<Rightarrow>
          (let st2 = record_effect (Stage_run Chart_stage) st1 in
           case chart_engine env cleaned sid of
             Inl e \<Rightarrow> (Some e, st2)
           | Inr chs \<Rightarrow>
               (let st3 = record_effect (Stage_run Narrative_stage) st2 in
                case narrator env fname rep profile summary_text of
                  Inl e \<Rightarrow> (Some e, st3)
                | Inr texts \<Rightarrow>
                    (let st4 = record_effect (Stage_run Report_stage) st3 in
                     case report_generator env sid fname profile rep chs texts of
                       Inl e \<Rightarrow> (Some e, st4)
                     | Inr report \<Rightarrow> persist_results env sid profile chs (fst texts) report st4))))"

text \<open>The body of the \<open>try\<close> of \<open>run_analysis\<close>: the exception that ended it, if any, and the store.\<close>

definition run_body :: "collaborators \<Rightarrow> string \<Rightarrow> string \<Rightarrow> string \<Rightarrow> storage \<Rightarrow> exn option \<times> storage" where
  "run_body env sid fname fpath st =
     (let st1 = record_effect (Stage_run Load_stage) (update_session_status st sid Analyzing) in
      case load_dataframe st1 fpath of
        None \<Rightarrow> (Some (Exception ''Dataset could not be loaded or is empty''), st1)
      | Some d \<Rightarrow>
          if empty_df d then (Some (Exception ''Dataset could not be loaded or is empty''), st1)
          else
            (let st2 = record_effect (Stage_run Clean_stage) st1 in
             case cleaner env d of
               Inl e \<Rightarrow> (Some e, st2)
             | Inr (cleaned, rep) \<Rightarrow>
                 analyze_cleaned env sid fname cleaned rep (save_dataframe st2 cleaned sid ''cleaned'')))"

text \<open>
  \<open>run_analysis\<close>: \<open>not self.filename\<close> holds for \<open>None\<close> and for the empty text. The
  \<open>except\<close> sets the status to \<open>error\<close> and returns \<open>False\<close>.
\<close>

definition falsy :: "string option \<Rightarrow> bool" where
  "falsy x = (x = None \<or> x = Some [])"

definition run_analysis :: "collaborators \<Rightarrow> agent \<Rightarrow> storage \<Rightarrow> bool \<times> storage" where
  "run_analysis env ag st =
     (if falsy (agent_filename ag) \<or> falsy (agent_filepath ag) then (False, st)
      else
        (case run_body env (agent_session_id ag) (the (agent_filename ag)) (the (agent_filepath ag)) st of
           (None, st') \<Rightarrow> (True, st')
         | (Some e, st') \<Rightarrow> (False, update_session_status st' (agent_session_id ag) Error)))"

text \<open>The effects of one run: what it appended to the journal.\<close>

definition run_trace :: "collaborators \<Rightarrow> agent \<Rightarrow> storage \<Rightarrow> effect list" where
  "run_trace env ag st = drop (length (journal st)) (journal (snd (run_analysis env ag st)))"

text \<open>
  Examples: a store with one uploaded session, and stages that do not raise: the cleaner
  above, a chart engine that returns no chart, and fixed texts for the rest.
\<close>

definition demo_store :: storage where
  "demo_store =
     \<lparr>sessions = (\<lambda>sid. if sid = ''s1''
          then Some \<lparr>filename = ''sales.csv'', filepath = ''temp/s1/sales.csv'', status = Uploaded\<rparr>
          else None),
      datasets = (\<lambda>k. None), results = (\<lambda>k. None),
      uploads = (\<lambda>path. if path = ''temp/s1/sales.csv'' then Some sales_df else None),
      writable = (\<lambda>sid. True), journal = []\<rparr>"

text \<open>The same store when the uploaded file cannot be read.\<close>

definition unreadable_store :: storage where
  "unreadable_store = demo_store\<lparr>uploads := (\<lambda>path. None)\<rparr>"

definition demo_env :: collaborators where
  "demo_env =
     \<lparr>cleaner = (\<lambda>d. Inr (clean pandas d)),
      profiler = (\<lambda>d. Inr (''profile'', ''summary'')),
      chart_engine = (\<lambda>d sid. Inr []),
      narrator = (\<lambda>fname rep profile summary. Inr (''insights'', ''executive summary'', ''recommendations'')),
      report_generator = (\<lambda>sid fname profile rep chs texts. Inr ''report''),
      dumps_profile = (\<lambda>p. Inr p), dumps_charts = (\<lambda>chs. Inr ''charts''), dumps_report = (\<lambda>r. Inr r)\<rparr>"

text \<open>The same stages when the chart engine raises (its constructor creates a folder).\<close>

definition chart_failure_env :: collaborators where
  "chart_failure_env = demo_env\<lparr>chart_engine := (\<lambda>d sid. Inl (Exception ''OSError''))\<rparr>"

text \<open>One of the stages after cleaning (profiling, charts, narrative, report) raises.\<close>

definition later_stage_raises ::
  "collaborators \<Rightarrow> string \<Rightarrow> string \<Rightarrow> dataframe \<Rightarrow> report_entry list \<Rightarrow> bool" where
  "later_stage_raises env sid fname cleaned rep =
     (case profiler env cleaned of
        Inl e \<Rightarrow> True
      | Inr (profile, summary_text) \<Rightarrow>
          (case chart_engine env cleaned sid of
             Inl e \<Rightarrow> True
           | Inr chs \<Rightarrow>
               (case narrator env fname rep profile summary_text of
                  Inl e \<Rightarrow> True
                | Inr texts \<Rightarrow>
                    (case report_generator env sid fname profile rep chs texts of
                       Inl e \<Rightarrow> True
                     | Inr report \<Rightarrow> False))))"

text \<open>
  Examples for the cleaner. In \<open>dup_df\<close> filling the gap of \<open>b\<close> makes the first two rows
  equal; in \<open>text_df\<close> filling the gap of \<open>v\<close> makes three of its four texts numeric; in
  \<open>sparse_df\<close> dropping the empty third row leaves each column half missing.
\<close>

definition dup_df :: dataframe where
  "dup_df = \<lparr>nrows = 3, columns =
     [\<lparr>label = LStr ''a'', dtype = Int64, cells = [Num 1, Num 1, Num 2]\<rparr>,
      \<lparr>label = LStr ''b'', dtype = Float64, cells = [NaN, Num 5, Num 5]\<rparr>]\<rparr>"

definition text_df :: dataframe where
  "text_df = \<lparr>nrows = 4, columns =
     [\<lparr>label = LStr ''id'', dtype = Int64, cells = [Num 1, Num 2, Num 3, Num 4]\<rparr>,
      \<lparr>label = LStr ''v'', dtype = Object, cells = [Txt ''1'', Txt ''1'', NaN, Txt ''x'']\<rparr>]\<rparr>"

definition sparse_df :: dataframe where
  "sparse_df = \<lparr>nrows = 3, columns =
     [\<lparr>label = LStr ''a'', dtype = Float64, cells = [Num 1, NaN, NaN]\<rparr>,
      \<lparr>label = LStr ''b'', dtype = Float64, cells = [NaN, Num 2, NaN]\<rparr>]\<rparr>"

text \<open>A numeric column with exactly half of its four values missing.\<close>

definition half_df :: dataframe where
  "half_df = \<lparr>nrows = 4, columns =
     [\<lparr>label = LStr ''x'', dtype = Float64, cells = [Num 1, Num 3, NaN, NaN]\<rparr>]\<rparr>"

text \<open>
  Four columns of four rows: a numeric and a text column with exactly half of their values
  missing, a text column with three of four missing, and a column with none missing.
\<close>

definition survey_df :: dataframe where
  "survey_df = \<lparr>nrows = 4, columns =
     [\<lparr>label = LStr ''age'', dtype = Float64, cells = [Num 1, Num 3, NaN, NaN]\<rparr>,
      \<lparr>label = LStr ''city'', dtype = Object, cells = [Txt ''oslo'', NaN, Txt ''oslo'', NaN]\<rparr>,
      \<lparr>label = LStr ''note'', dtype = Object, cells = [NaN, NaN, NaN, Txt ''late'']\<rparr>,
      \<lparr>label = LStr ''id'', dtype = Int64, cells = [Num 1, Num 2, Num 3, Num 4]\<rparr>]\<rparr>"

text \<open>A text column of ten values of which exactly seven are numbers.\<close>

definition seventy_df :: dataframe where
  "seventy_df = \<lparr>nrows = 10, columns =
     [\<lparr>label = LStr ''x'', dtype = Object,
       cells = [Txt ''1'', Txt ''2'', Txt ''3'', Txt ''4'', Txt ''5'', Txt ''6'', Txt ''7'',
                Txt ''a'', Txt ''b'', Txt ''c'']\<rparr>]\<rparr>"

text \<open>Which step wrote an entry of the cleaning report.\<close>

definition is_warning_entry :: "report_entry \<Rightarrow> bool" where
  "is_warning_entry e = (case e of Standardize_warning x \<Rightarrow> True | _ \<Rightarrow> False)"

definition is_duplicates_entry :: "report_entry \<Rightarrow> bool" where
  "is_duplicates_entry e = (case e of Removed_duplicates k \<Rightarrow> 0 < k | No_duplicates \<Rightarrow> True | _ \<Rightarrow> False)"

definition is_types_entry :: "report_entry \<Rightarrow> bool" where
  "is_types_entry e = (case e of Fixed_types ls \<Rightarrow> ls \<noteq> [] | Types_appropriate \<Rightarrow> True | _ \<Rightarrow> False)"

definition is_missing_entry :: "report_entry \<Rightarrow> bool" where
  "is_missing_entry e = (case e of Handled_missing ns \<Rightarrow> ns \<noteq> [] | No_missing \<Rightarrow> True | _ \<Rightarrow> False)"

definition is_empty_entry :: "report_entry \<Rightarrow> bool" where
  "is_empty_entry e = (case e of Removed_empty r k \<Rightarrow> 0 < r \<or> 0 < k | _ \<Rightarrow> False)"

definition is_outliers_entry :: "report_entry \<Rightarrow> bool" where
  "is_outliers_entry e = (case e of Outliers_detected os \<Rightarrow> os \<noteq> [] | No_outliers \<Rightarrow> True | _ \<Rightarrow> False)"

text \<open>Step 0 failed: the conversion of the labels, or their assignment, raised.\<close>

definition standardization_failed :: "pandas_lib \<Rightarrow> dataframe \<Rightarrow> bool" where
  "standardization_failed pd d =
     (case astype_str pd (map label (columns d)) of
        Inl e \<Rightarrow> True
      | Inr names \<Rightarrow> length names \<noteq> length (columns d))"

text \<open>The data set step 4 receives, and whether step 4 removes a row or a column from it.\<close>

definition before_remove_empty :: "pandas_lib \<Rightarrow> dataframe \<Rightarrow> dataframe" where
  "before_remove_empty pd d =
     cleaner_df (handle_missing_values pd (fix_data_types pd
       (remove_duplicates (standardize_columns pd (new_cleaner d)))))"

definition something_empty :: "pandas_lib \<Rightarrow> dataframe \<Rightarrow> bool" where
  "something_empty pd d =
     (let b = drop_empty_rows (before_remove_empty pd d)
      in nrows b < nrows (before_remove_empty pd d)
         \<or> length (columns (drop_empty_columns b)) < length (columns b))"

text \<open>A text column of four values of which three are numbers.\<close>

definition mostly_numeric_df :: dataframe where
  "mostly_numeric_df = \<lparr>nrows = 4, columns =
     [\<lparr>label = LStr ''x'', dtype = Object, cells = [Txt ''1'', Txt ''2'', Txt ''3'', Txt ''x'']\<rparr>]\<rparr>"

text \<open>\<open>non_null_count\<close>: how many cells of a column convert to a number.\<close>

definition converted :: "pandas_lib \<Rightarrow> column \<Rightarrow> nat" where
  "converted pd col = length (filter notna (map (to_numeric pd) (cells col)))"

text \<open>
  A data set the cleaner has nothing to do on: one cell per row in every column, labels
  that \<open>astype(str)\<close> returns as they are, no duplicate rows, no text column that converts
  at more than 70 percent, no column with missing values at or below 50 percent, no empty
  row and no empty column.
\<close>

definition labels_are_text :: "pandas_lib \<Rightarrow> dataframe \<Rightarrow> bool" where
  "labels_are_text pd d = (astype_str pd (map label (columns d)) = Inr (map label (columns d)))"

definition no_duplicate_rows :: "dataframe \<Rightarrow> bool" where
  "no_duplicate_rows d = (empty_df d \<or> distinct (rows d))"

definition no_convertible_text :: "pandas_lib \<Rightarrow> dataframe \<Rightarrow> bool" where
  "no_convertible_text pd d =
     list_all (\<lambda>c. \<not> (dtype c = Object \<and> 7 * nrows d < 10 * converted pd c)) (columns d)"

definition nothing_to_impute :: "dataframe \<Rightarrow> bool" where
  "nothing_to_impute d =
     list_all (\<lambda>c. missing_count c = 0 \<or> 50 * nrows d < 100 * missing_count c) (columns d)"

definition no_empty_rows :: "dataframe \<Rightarrow> bool" where
  "no_empty_rows d = list_all (list_ex notna) (rows d)"

definition no_empty_columns :: "dataframe \<Rightarrow> bool" where
  "no_empty_columns d = list_all (\<lambda>c. list_ex notna (cells c)) (columns d)"

text \<open>The row numbers a mask keeps.\<close>

definition positions :: "bool list \<Rightarrow> nat list" where
  "positions keep = select_cells keep [0..<length keep]"

section \<open>Verification\<close>

subsection \<open>Profiler\<close>

lemma five_percent_exact:
  "((of_nat u :: rat) < of_nat n * (5 / 100)) = (100 * u < 5 * n)"
proof -
  have "((of_nat u :: rat) < of_nat n * (5 / 100)) = ((of_nat (100 * u) :: rat) < of_nat (5 * n))"
    by (simp add: field_simps)
  then show ?thesis by (simp only: of_nat_less_iff)
qed

lemma classify_foldl_categorical:
  "set (categorical (foldl (classify_column n) acc cs)) =
     set (categorical acc) \<union> label ` {c \<in> set cs.
        if is_int64_or_float64 (dtype c) then nunique c < 10 \<and> 100 * nunique c < 5 * n else dtype c \<noteq> Datetime64}"
proof (induction cs arbitrary: acc)
  case Nil show ?case by simp
next
  case (Cons c cs)
  show ?case unfolding foldl_Cons Cons.IH
    by (auto simp: classify_column_def Let_def five_percent_exact)
qed

lemma classify_foldl_numeric:
  "set (numeric (foldl (classify_column n) acc cs)) =
     set (numeric acc) \<union> label ` {c \<in> set cs.
        is_int64_or_float64 (dtype c) \<and> \<not> (nunique c < 10 \<and> 100 * nunique c < 5 * n)}"
proof (induction cs arbitrary: acc)
  case Nil show ?case by simp
next
  case (Cons c cs)
  show ?case unfolding foldl_Cons Cons.IH
    by (auto simp: classify_column_def Let_def five_percent_exact)
qed

lemma label_image_iff:
  assumes "distinct (map label cs)" "c \<in> set cs"
  shows "(label c \<in> label ` {x \<in> set cs. P x}) = P c"
proof -
  have "inj_on label (set cs)" using assms(1) by (simp add: distinct_map)
  then show ?thesis using assms(2) by (auto dest: inj_onD)
qed

lemma set_concat_replicate: "0 < k \<Longrightarrow> set (concat (replicate k xs)) = set xs"
  by (cases k) auto

lemma nunique_codes: "0 < k \<Longrightarrow> nunique (codes_column k) = 8"
proof -
  assume k: "0 < k"
  have "nunique (codes_column k) = card (set (filter notna (concat (replicate k eight_values))))"
    by (simp add: nunique_def codes_column_def length_remdups_card_conv)
  also have "\<dots> = card (set eight_values)"
    using set_concat_replicate [OF k, of eight_values] by (simp add: notna_def eight_values_def)
  also have "\<dots> = 8" by (simp add: eight_values_def)
  finally show ?thesis .
qed
lemma nunique_codes50: "nunique codes50 = 8"
proof -
  have "nunique codes50 = card (set (filter notna (cells codes50)))"
    by (simp add: nunique_def length_remdups_card_conv)
  also have "set (filter notna (cells codes50)) = set eight_values"
    using set_concat_replicate [of 6 eight_values] by (auto simp: codes50_def notna_def eight_values_def)
  also have "card (set eight_values) = 8" by (simp add: eight_values_def)
  finally show ?thesis .
qed

text \<open>
  For a column stored as \<open>int64\<close> or \<open>float64\<close>, in a data set whose labels are distinct,
  the column is put in the categorical list exactly when its number of distinct values is
  below 10 and below 5 percent of the row count, and in the numeric list exactly otherwise;
  so 8 distinct values in 1000 rows is categorical and 8 distinct values in 50 rows stays
  numeric.
\<close>

lemma classify_int64_float64_column:
  assumes "c \<in> set (columns d)" and "is_int64_or_float64 (dtype c)"
    and "distinct (map label (columns d))"
  shows "(label c \<in> set (categorical (classify_columns d))) = (nunique c < 10 \<and> 100 * nunique c < 5 * nrows d)
       \<and> (label c \<in> set (numeric (classify_columns d))) = (\<not> (nunique c < 10 \<and> 100 * nunique c < 5 * nrows d))
       \<and> (nunique c = 8 \<and> nrows d = 1000 \<longrightarrow>
            label c \<in> set (categorical (classify_columns d)) \<and> label c \<notin> set (numeric (classify_columns d)))
       \<and> (nunique c = 8 \<and> nrows d = 50 \<longrightarrow>
            label c \<in> set (numeric (classify_columns d)) \<and> label c \<notin> set (categorical (classify_columns d)))"
proof -
  have cat: "(label c \<in> set (categorical (classify_columns d))) = (nunique c < 10 \<and> 100 * nunique c < 5 * nrows d)"
    unfolding classify_columns_def classify_foldl_categorical
    using label_image_iff [OF assms(3) assms(1)] assms(2) by simp
  have num: "(label c \<in> set (numeric (classify_columns d))) = (\<not> (nunique c < 10 \<and> 100 * nunique c < 5 * nrows d))"
    unfolding classify_columns_def classify_foldl_numeric
    using label_image_iff [OF assms(3) assms(1)] assms(2) by simp
  show ?thesis unfolding cat num by simp
qed

lemma classify_int64_float64_examples:
  "label (codes_column 125) \<in> set (categorical (classify_columns (codes_df 125)))
   \<and> label (codes_column 125) \<notin> set (numeric (classify_columns (codes_df 125)))
   \<and> nrows (codes_df 125) = 1000 \<and> nunique (codes_column 125) = 8
   \<and> label codes50 \<in> set (numeric (classify_columns \<lparr>nrows = 50, columns = [codes50]\<rparr>))
   \<and> label codes50 \<notin> set (categorical (classify_columns \<lparr>nrows = 50, columns = [codes50]\<rparr>))"
proof -
  have a: "codes_column 125 \<in> set (columns (codes_df 125))" by (simp add: codes_df_def)
  have b: "is_int64_or_float64 (dtype (codes_column 125))" by (simp add: codes_column_def is_int64_or_float64_def)
  have c: "distinct (map label (columns (codes_df 125)))" by (simp add: codes_df_def)
  have n: "nrows (codes_df 125) = 1000" by (simp add: codes_df_def)
  have u: "nunique (codes_column 125) = 8" by (simp add: nunique_codes)
  have a': "codes50 \<in> set (columns \<lparr>nrows = 50, columns = [codes50]\<rparr>)" by simp
  have b': "is_int64_or_float64 (dtype codes50)" by (simp add: codes50_def is_int64_or_float64_def)
  have c': "distinct (map label (columns \<lparr>nrows = 50, columns = [codes50]\<rparr>))" by simp
  show ?thesis
    using classify_int64_float64_column [OF a b c] classify_int64_float64_column [OF a' b' c']
      n u nunique_codes50 by simp
qed

lemma nunique_ids50: "nunique ids50 = 8"
proof -
  have "nunique ids50 = card (set (filter notna (cells ids50)))"
    by (simp add: nunique_def length_remdups_card_conv)
  also have "set (filter notna (cells ids50)) = set eight_ids"
    using set_concat_replicate [of 6 eight_ids] by (auto simp: ids50_def notna_def eight_ids_def)
  also have "card (set eight_ids) = 8" by (simp add: eight_ids_def)
  finally show ?thesis .
qed

text \<open>
  Claim C8 says that a numeric-typed column is classified categorical exactly when its
  number of distinct values is below 10 and below 5 percent of the row count, so that a
  numeric column with 8 distinct values in 50 rows remains numeric. The test of
  \<open>_classify_columns\<close>, under its comment "Check if numeric", names the stored types
  \<open>int64\<close> and \<open>float64\<close> only, and every other column that is not a timestamp goes to the
  categorical list, where the chart engine and the outlier step select the numeric columns
  by \<open>np.number\<close>. A \<open>uint64\<close> column with 8 distinct values in 50 rows is classified
  categorical and is not in the numeric list.
\<close>

theorem uint64_column_classified_categorical:
  "dtype ids50 = UInt64 \<and> is_np_number (dtype ids50)
   \<and> nunique ids50 = 8 \<and> nrows ids_df = 50 \<and> columns ids_df = [ids50]
   \<and> 5 * nrows ids_df \<le> 100 * nunique ids50
   \<and> classify_columns ids_df = \<lparr>numeric = [], categorical = [LStr ''id''], datetime = []\<rparr>"
  by (simp add: nunique_ids50 ids_df_def classify_columns_def classify_column_def
        is_int64_or_float64_def is_np_number_def, simp add: ids50_def)

subsection \<open>Chart engine\<close>

lemma execute_plot_code_cases:
  "execute_plot_code r a code title base =
     (case exec_code r code (df a) of
        Inl (Exits x) \<Rightarrow> (Propagated x, a)
      | Inl (Raises e) \<Rightarrow> (Returned False, a)
      | Inr u \<Rightarrow>
          if savefig r (path_join (charts_dir a) (base @ ''.png'')) title = Inr ()
          then (Returned True, a\<lparr>charts := charts a @
                    [\<lparr>chart_type = ''custom'', chart_title = title, chart_filename = base @ ''.png'',
                      chart_filepath = path_join (charts_dir a) (base @ ''.png''),
                      chart_description = ''AI generated chart: '' @ title,
                      chart_code = Generated code\<rparr>]\<rparr>)
          else (Returned False, a))"
  by (auto simp: execute_plot_code_def Let_def split: sum.splits raised.splits)

text \<open>
  Claim C10 says that when executing the chart code raises any exception the method returns
  \<open>False\<close>. Its handler is \<open>except Exception\<close>: an exit raised by the executed text
  (\<open>raise SystemExit(1)\<close>) is not an instance of \<open>Exception\<close>, passes the handler and leaves
  \<open>_execute_plot_code\<close> without a return value; the chart list is as before.
\<close>

theorem exit_passes_the_handler:
  "exec_code demo_renderer ''raise SystemExit(1)'' (df fresh) = Inl (Exits (SystemExit ''1''))
   \<and> execute_plot_code demo_renderer fresh ''raise SystemExit(1)'' ''T'' ''f''
       = (Propagated (SystemExit ''1''), fresh)
   \<and> fst (execute_plot_code demo_renderer fresh ''raise SystemExit(1)'' ''T'' ''f'') \<noteq> Returned False"
  by (simp add: execute_plot_code_cases demo_renderer_def)

text \<open>
  Claim C10, amended. \<open>_execute_plot_code\<close> is atomic on the chart list. When executing
  the code raises an instance of \<open>Exception\<close>, or executing succeeds and saving the figure
  raises, it returns \<open>False\<close> and the analyzer, its chart list included, is as before the
  call; when executing raises an exit, the exit passes to the caller and the analyzer is
  again as before the call; when executing and saving both succeed it returns \<open>True\<close> and
  exactly one chart entry has been appended.
\<close>

theorem execute_plot_code_atomic:
  "(exec_code r code (df a) = Inl (Raises e) \<longrightarrow>
        execute_plot_code r a code title base = (Returned False, a))
   \<and> (exec_code r code (df a) = Inl (Exits x) \<longrightarrow>
        execute_plot_code r a code title base = (Propagated x, a))
   \<and> (exec_code r code (df a) = Inr () \<and>
        savefig r (path_join (charts_dir a) (base @ ''.png'')) title = Inl e \<longrightarrow>
        execute_plot_code r a code title base = (Returned False, a))
   \<and> (exec_code r code (df a) = Inr () \<and>
        savefig r (path_join (charts_dir a) (base @ ''.png'')) title = Inr () \<longrightarrow>
        execute_plot_code r a code title base =
          (Returned True,
           a\<lparr>charts := charts a @
               [\<lparr>chart_type = ''custom'', chart_title = title, chart_filename = base @ ''.png'',
                 chart_filepath = path_join (charts_dir a) (base @ ''.png''),
                 chart_description = ''AI generated chart: '' @ title,
                 chart_code = Generated code\<rparr>]\<rparr>)
        \<and> length (charts (snd (execute_plot_code r a code title base))) = Suc (length (charts a)))"
  by (simp add: execute_plot_code_cases)

theorem execute_plot_code_atomic_witness:
  "exec_code demo_renderer ''plot_heatmap(df)'' (df fresh) = Inl (Raises (Exception ''NameError''))
   \<and> execute_plot_code demo_renderer fresh ''plot_heatmap(df)'' ''T'' ''f'' = (Returned False, fresh)
   \<and> exec_code demo_renderer ''raise SystemExit(1)'' (df fresh) = Inl (Exits (SystemExit ''1''))
   \<and> execute_plot_code demo_renderer fresh ''raise SystemExit(1)'' ''T'' ''f''
       = (Propagated (SystemExit ''1''), fresh)
   \<and> exec_code (demo_renderer\<lparr>savefig := (\<lambda>p t. Inl (Exception ''OSError''))\<rparr>) ''plt.plot([1, 2, 3])'' (df fresh) = Inr ()
   \<and> savefig (demo_renderer\<lparr>savefig := (\<lambda>p t. Inl (Exception ''OSError''))\<rparr>)
        (path_join (charts_dir fresh) (''f'' @ ''.png'')) ''T'' = Inl (Exception ''OSError'')
   \<and> execute_plot_code (demo_renderer\<lparr>savefig := (\<lambda>p t. Inl (Exception ''OSError''))\<rparr>) fresh
        ''plt.plot([1, 2, 3])'' ''T'' ''f'' = (Returned False, fresh)
   \<and> exec_code demo_renderer ''plt.plot([1, 2, 3])'' (df fresh) = Inr ()
   \<and> savefig demo_renderer (path_join (charts_dir fresh) (''f'' @ ''.png'')) ''T'' = Inr ()
   \<and> fst (execute_plot_code demo_renderer fresh ''plt.plot([1, 2, 3])'' ''T'' ''f'') = Returned True
   \<and> length (charts (snd (execute_plot_code demo_renderer fresh ''plt.plot([1, 2, 3])'' ''T'' ''f'')))
       = Suc (length (charts fresh))"
proof -
  have a: "exec_code demo_renderer ''plot_heatmap(df)'' (df fresh) = Inl (Raises (Exception ''NameError''))"
    by (simp add: demo_renderer_def)
  have b: "exec_code demo_renderer ''raise SystemExit(1)'' (df fresh) = Inl (Exits (SystemExit ''1''))"
    by (simp add: demo_renderer_def)
  have c: "exec_code (demo_renderer\<lparr>savefig := (\<lambda>p t. Inl (Exception ''OSError''))\<rparr>) ''plt.plot([1, 2, 3])'' (df fresh) = Inr ()
      \<and> savefig (demo_renderer\<lparr>savefig := (\<lambda>p t. Inl (Exception ''OSError''))\<rparr>)
        (path_join (charts_dir fresh) (''f'' @ ''.png'')) ''T'' = Inl (Exception ''OSError'')"
    by (simp add: demo_renderer_def)
  have d: "exec_code demo_renderer ''plt.plot([1, 2, 3])'' (df fresh) = Inr ()
      \<and> savefig demo_renderer (path_join (charts_dir fresh) (''f'' @ ''.png'')) ''T'' = Inr ()"
    by (simp add: demo_renderer_def)
  show ?thesis
    using execute_plot_code_atomic [of demo_renderer "''plot_heatmap(df)''" fresh "Exception ''NameError''" "''T''" "''f''" "SystemExit ''1''"]
      execute_plot_code_atomic [of demo_renderer "''raise SystemExit(1)''" fresh "Exception ''NameError''" "''T''" "''f''" "SystemExit ''1''"]
      execute_plot_code_atomic [of "demo_renderer\<lparr>savefig := (\<lambda>p t. Inl (Exception ''OSError''))\<rparr>" "''plt.plot([1, 2, 3])''" fresh "Exception ''OSError''" "''T''" "''f''" "SystemExit ''1''"]
      execute_plot_code_atomic [of demo_renderer "''plt.plot([1, 2, 3])''" fresh "Exception ''OSError''" "''T''" "''f''" "SystemExit ''1''"]
      a b c d by simp
qed

lemma replace_no_match:
  "old \<noteq> [] \<Longrightarrow> hd old \<notin> set s \<Longrightarrow> replace old new s = s"
proof (induction s)
  case Nil then show ?case by (subst replace.simps) simp
next
  case (Cons c s)
  have "take (length old) (c # s) \<noteq> old"
  proof
    assume "take (length old) (c # s) = old"
    then have "hd old = c" using Cons.prems(1) by (cases old) auto
    then show False using Cons.prems(2) by simp
  qed
  then show ?case using Cons by (subst replace.simps) simp
qed

lemma helpful_code:
  "generate_chart_code helpful_llm ctx cols ct = Some ''plt.plot([1, 2, 3])''"
proof -
  have 1: "replace (fence @ ''python'') [] ''plt.plot([1, 2, 3])'' = ''plt.plot([1, 2, 3])''"
    by (rule replace_no_match) (simp_all add: fence_def)
  have 2: "replace fence [] ''plt.plot([1, 2, 3])'' = ''plt.plot([1, 2, 3])''"
    by (rule replace_no_match) (simp_all add: fence_def)
  show ?thesis
    by (simp add: generate_chart_code_def helpful_llm_def 1 2 strip_def is_space_def)
qed

lemma careless_code:
  "generate_chart_code careless_llm ctx cols ct = Some ''plot_heatmap(df)''"
proof -
  have 1: "replace (fence @ ''python'') [] ''plot_heatmap(df)'' = ''plot_heatmap(df)''"
    by (rule replace_no_match) (simp_all add: fence_def)
  have 2: "replace fence [] ''plot_heatmap(df)'' = ''plot_heatmap(df)''"
    by (rule replace_no_match) (simp_all add: fence_def)
  show ?thesis
    by (simp add: generate_chart_code_def careless_llm_def 1 2 strip_def is_space_def)
qed

lemma silent_code: "generate_chart_code silent_llm ctx cols ct = None"
  by (simp add: generate_chart_code_def silent_llm_def)

text \<open>
  Claim C5 says that a slot whose generated instruction raises when executed is not counted:
  the running count is not incremented. The code increments it. With a generator whose
  instruction calls a name that is not defined, executing it raises \<open>NameError\<close>, and slot 1
  leaves the chart list empty and the run goes on, but \<open>count\<close> is 1:
  \<open>_execute_plot_code\<close> has caught the error and returned \<open>False\<close>, and \<open>analyze\<close>
  ignores that result, where \<open>create_custom_chart\<close> tests it.
\<close>

theorem failed_render_still_counted:
  "generate_chart_code careless_llm (Context ''Numeric columns: '' (select_number sales_df) [])
       (Col_list (select_number sales_df)) ''Correlation Heatmap'' = Some ''plot_heatmap(df)''
   \<and> exec_code demo_renderer ''plot_heatmap(df)'' sales_df = Inl (Raises (Exception ''NameError''))
   \<and> slot_heatmap demo_renderer (new_analyzer ''temp'' careless_llm sales_df ''s1'', 0)
       = (None, new_analyzer ''temp'' careless_llm sales_df ''s1'', 1)
   \<and> charts (new_analyzer ''temp'' careless_llm sales_df ''s1'') = []"
  by (simp add: slot_heatmap_def Let_def new_analyzer_def careless_code select_number_def sales_df_def
      is_np_number_def execute_plot_code_cases demo_renderer_def)

lemma slot_generated:
  assumes "rendered r a reply title base"
  shows "\<exists>a'. (case reply of
            None \<Rightarrow> (None, a, count)
          | Some code \<Rightarrow>
              if code \<noteq> [] then
                (case execute_plot_code r a code title base of
                   (Returned ok, a') \<Rightarrow> (None, a', count + 1)
                 | (Propagated x, a') \<Rightarrow> (Some x, a', count))
              else (None, a, count)) = (None, a', count + length (generated reply))
         \<and> df a' = df a \<and> llm a' = llm a \<and> charts_dir a' = charts_dir a
         \<and> map chart_code (charts a') = map chart_code (charts a) @ generated reply"
  using assms
  by (auto simp: rendered_def generated_def execute_plot_code_cases split: option.splits)

lemma slot_heatmap_ok:
  assumes "1 < length (select_number (df a))" "count < 5"
    and "rendered r a (generate_chart_code (llm a) (Context ''Numeric columns: '' (select_number (df a)) [])
            (Col_list (select_number (df a))) ''Correlation Heatmap'') ''Correlation Heatmap'' ''correlation_heatmap''"
  shows "\<exists>a'. slot_heatmap r (a, count) =
            (None, a', count + length (generated (generate_chart_code (llm a)
                (Context ''Numeric columns: '' (select_number (df a)) [])
                (Col_list (select_number (df a))) ''Correlation Heatmap'')))
         \<and> df a' = df a \<and> llm a' = llm a \<and> charts_dir a' = charts_dir a
         \<and> map chart_code (charts a') = map chart_code (charts a) @
              generated (generate_chart_code (llm a) (Context ''Numeric columns: '' (select_number (df a)) [])
                (Col_list (select_number (df a))) ''Correlation Heatmap'')"
  using slot_generated [OF assms(3), of count] assms(1,2)
  by (simp add: slot_heatmap_def Let_def)

lemma slot_relationship_ok:
  assumes "1 < length (select_number (df a))" "count < 5"
    and "rendered r a (generate_chart_code (llm a)
            (Context ''Find an interesting relationship between these columns: '' (select_number (df a)) ''.'')
            (Col_list (select_number (df a))) ''Scatter Plot or Line Chart'')
          ''Key Relationship Analysis'' ''ai_relationship_plot''"
  shows "\<exists>a'. slot_relationship r (a, count) =
            (None, a', count + length (generated (generate_chart_code (llm a)
                (Context ''Find an interesting relationship between these columns: '' (select_number (df a)) ''.'')
                (Col_list (select_number (df a))) ''Scatter Plot or Line Chart'')))
         \<and> df a' = df a \<and> llm a' = llm a \<and> charts_dir a' = charts_dir a
         \<and> map chart_code (charts a') = map chart_code (charts a) @
              generated (generate_chart_code (llm a)
                (Context ''Find an interesting relationship between these columns: '' (select_number (df a)) ''.'')
                (Col_list (select_number (df a))) ''Scatter Plot or Line Chart'')"
  using slot_generated [OF assms(3), of count] assms(1,2)
  by (simp add: slot_relationship_def Let_def)

lemma slot_histogram_ok:
  assumes "0 < length (select_number (df a))" "count < 5"
    and "histplot r (df a) (hd (select_number (df a))) = Inr ()"
    and "savefig r (path_join (charts_dir a) (safe_name (''hist_'' @ str_label (hd (select_number (df a)))) @ ''.png''))
              (''Distribution of '' @ str_label (hd (select_number (df a)))) = Inr ()"
  shows "\<exists>a'. slot_histogram r (a, count) = (a', Suc count)
         \<and> df a' = df a \<and> llm a' = llm a \<and> charts_dir a' = charts_dir a
         \<and> map chart_code (charts a') = map chart_code (charts a) @ [Hist_template (hd (select_number (df a)))]"
  using assms by (simp add: slot_histogram_def create_histogram_def save_plot_def Let_def)

lemma slot_bar_ok:
  assumes "0 < length (select_object (df a))" "count < 5"
    and "countplot r (df a) (hd (select_object (df a))) = Inr ()"
    and "savefig r (path_join (charts_dir a) (safe_name (''bar_'' @ str_label (hd (select_object (df a)))) @ ''.png''))
              (''Top categories in '' @ str_label (hd (select_object (df a)))) = Inr ()"
  shows "\<exists>a'. slot_bar r (a, count) = (a', Suc count)
         \<and> df a' = df a \<and> llm a' = llm a \<and> charts_dir a' = charts_dir a
         \<and> map chart_code (charts a') = map chart_code (charts a) @ [Bar_template (hd (select_object (df a)))]"
  using assms by (simp add: slot_bar_def create_bar_chart_def save_plot_def Let_def)

lemma slot_boxplot_ok:
  assumes "0 < length (select_number (df a))" "count < 5"
    and "boxplot r (df a) (take 5 (select_number (df a))) = Inr ()"
    and "savefig r (path_join (charts_dir a) (safe_name ''boxplot_comparison'' @ ''.png''))
              ''Box Plot Distribution'' = Inr ()"
  shows "\<exists>a'. slot_boxplot r (a, count) = (a', Suc count)
         \<and> df a' = df a \<and> llm a' = llm a \<and> charts_dir a' = charts_dir a
         \<and> map chart_code (charts a') = map chart_code (charts a) @ [Box_template (take 5 (select_number (df a)))]"
  using assms by (simp add: slot_boxplot_def create_boxplot_def save_plot_def Let_def)

lemma length_generated: "length (generated reply) \<le> 1"
  by (simp add: generated_def split: option.splits)

lemma analyze_codes:
  assumes n: "2 \<le> length (select_number d)" and c: "1 \<le> length (select_object d)"
    and b: "builtin_renders_ok r (new_analyzer tmp client d sid)"
    and g: "generated_renders_ok r (new_analyzer tmp client d sid)"
  shows "chart_codes (analyze r (new_analyzer tmp client d sid)) = Some (
     generated (generate_chart_code client (Context ''Numeric columns: '' (select_number d) [])
                   (Col_list (select_number d)) ''Correlation Heatmap'')
     @ [Hist_template (hd (select_number d)), Bar_template (hd (select_object d)),
        Box_template (take 5 (select_number d))]
     @ generated (generate_chart_code client
              (Context ''Find an interesting relationship between these columns: '' (select_number d) ''.'')
                   (Col_list (select_number d)) ''Scatter Plot or Line Chart''))"
proof -
  define a0 where "a0 = new_analyzer tmp client d sid"
  define dir where "dir = charts_dir a0"
  define g1 where "g1 = generated (generate_chart_code client (Context ''Numeric columns: '' (select_number d) [])
                   (Col_list (select_number d)) ''Correlation Heatmap'')"
  define g5 where "g5 = generated (generate_chart_code client
              (Context ''Find an interesting relationship between these columns: '' (select_number d) ''.'')
                   (Col_list (select_number d)) ''Scatter Plot or Line Chart'')"
  have i0: "df a0 = d" "llm a0 = client" "charts a0 = []"
    by (simp_all add: a0_def new_analyzer_def)
  have n0: "0 < length (select_number d)" "1 < length (select_number d)" using n by auto
  have c0: "0 < length (select_object d)" using c by auto
  have l1: "length g1 \<le> 1" unfolding g1_def by (rule length_generated)
  from b have b': "histplot r d (hd (select_number d)) = Inr ()"
      "savefig r (path_join dir (safe_name (''hist_'' @ str_label (hd (select_number d))) @ ''.png''))
              (''Distribution of '' @ str_label (hd (select_number d))) = Inr ()"
      "countplot r d (hd (select_object d)) = Inr ()"
      "savefig r (path_join dir (safe_name (''bar_'' @ str_label (hd (select_object d))) @ ''.png''))
              (''Top categories in '' @ str_label (hd (select_object d))) = Inr ()"
      "boxplot r d (take 5 (select_number d)) = Inr ()"
      "savefig r (path_join dir (safe_name ''boxplot_comparison'' @ ''.png'')) ''Box Plot Distribution'' = Inr ()"
    unfolding a0_def [symmetric] by (simp_all add: builtin_renders_ok_def Let_def i0 dir_def)
  from g have g': "rendered r a0 (generate_chart_code client (Context ''Numeric columns: '' (select_number d) [])
              (Col_list (select_number d)) ''Correlation Heatmap'') ''Correlation Heatmap'' ''correlation_heatmap''"
      "rendered r a0 (generate_chart_code client
              (Context ''Find an interesting relationship between these columns: '' (select_number d) ''.'')
              (Col_list (select_number d)) ''Scatter Plot or Line Chart'')
           ''Key Relationship Analysis'' ''ai_relationship_plot''"
    unfolding a0_def [symmetric] by (simp_all add: generated_renders_ok_def Let_def i0)
  obtain a1 where s1: "slot_heatmap r (a0, 0) = (None, a1, length g1)"
      and e1: "df a1 = d" "llm a1 = client" "charts_dir a1 = dir"
      and c1: "map chart_code (charts a1) = g1"
    using slot_heatmap_ok [of a0 0 r] n0 g'(1) by (auto simp: i0 g1_def dir_def)
  obtain a2 where s2: "slot_histogram r (a1, length g1) = (a2, Suc (length g1))"
      and e2: "df a2 = d" "llm a2 = client" "charts_dir a2 = dir"
      and c2: "map chart_code (charts a2) = g1 @ [Hist_template (hd (select_number d))]"
    using slot_histogram_ok [of a1 "length g1" r] n0 l1 b'(1,2) by (auto simp: e1 c1)
  obtain a3 where s3: "slot_bar r (a2, Suc (length g1)) = (a3, Suc (Suc (length g1)))"
      and e3: "df a3 = d" "llm a3 = client" "charts_dir a3 = dir"
      and c3: "map chart_code (charts a3) = g1 @ [Hist_template (hd (select_number d)), Bar_template (hd (select_object d))]"
    using slot_bar_ok [of a2 "Suc (length g1)" r] c0 l1 b'(3,4) by (auto simp: e2 c2)
  obtain a4 where s4: "slot_boxplot r (a3, Suc (Suc (length g1))) = (a4, Suc (Suc (Suc (length g1))))"
      and e4: "df a4 = d" "llm a4 = client" "charts_dir a4 = dir"
      and c4: "map chart_code (charts a4) = g1 @ [Hist_template (hd (select_number d)), Bar_template (hd (select_object d)),
                 Box_template (take 5 (select_number d))]"
    using slot_boxplot_ok [of a3 "Suc (Suc (length g1))" r] n0 l1 b'(5,6) by (auto simp: e3 c3)
  have r5: "rendered r a4 (generate_chart_code client
              (Context ''Find an interesting relationship between these columns: '' (select_number d) ''.'')
              (Col_list (select_number d)) ''Scatter Plot or Line Chart'')
           ''Key Relationship Analysis'' ''ai_relationship_plot''"
    using g'(2) by (simp add: rendered_def e4 i0 dir_def split: option.splits)
  obtain a5 k where s5: "slot_relationship r (a4, Suc (Suc (Suc (length g1)))) = (None, a5, k)"
      and c5: "map chart_code (charts a5) = (g1 @ [Hist_template (hd (select_number d)), Bar_template (hd (select_object d)),
                 Box_template (take 5 (select_number d))]) @ g5"
    using slot_relationship_ok [of a4 "Suc (Suc (Suc (length g1)))" r] n0 l1 r5 by (auto simp: e4 c4 g5_def)
  have "analyze r a0 = Returned (charts a5)"
    by (simp add: analyze_def analyze_run_def s1 s2 s3 s4 s5)
  then show ?thesis
    unfolding a0_def [symmetric] g1_def [symmetric] g5_def [symmetric]
    by (simp add: chart_codes_def c5)
qed

lemma chart_count_codes: "chart_count res = map_option length (chart_codes res)"
  by (simp add: chart_count_def chart_codes_def split: outcome.splits)

text \<open>
  Claim C1 counts the categorical columns of the data set. \<open>analyze\<close> draws its bar chart
  for the first column of stored type \<open>object\<close>: a data set with two numeric columns and a
  boolean column, which the profiler lists as categorical, gets no bar chart, and the run
  returns 4 charts with a generator whose instructions render and 2 without generator.
\<close>

theorem boolean_column_gets_no_bar_chart:
  "numeric (classify_columns members_df) = [LStr ''price'', LStr ''units'']
   \<and> categorical (classify_columns members_df) = [LStr ''member'']
   \<and> chart_count (analyze demo_renderer (new_analyzer ''temp'' helpful_llm members_df ''s1'')) = Some 4
   \<and> chart_count (analyze demo_renderer (new_analyzer ''temp'' silent_llm members_df ''s1'')) = Some 2"
  by code_simp

text \<open>
  Claim C1, amended. An automatic run of \<open>analyze\<close> on a data set with at least two
  numeric columns and at least one text column (stored type \<open>object\<close>), on which the renders
  of the three built-in charts succeed, returns exactly 5 charts when the generator returns
  a non-empty instruction for every request and the two instructions it returned render, and
  exactly 3, the histogram, the bar chart and the box plot in this order, when the
  generator returns no result for every request.
\<close>

theorem analyze_chart_cap:
  assumes "2 \<le> length (select_number d)" and "1 \<le> length (select_object d)"
    and "builtin_renders_ok r (new_analyzer tmp client d sid)"
  shows "((\<forall>ctx cols ct. \<exists>code. generate_chart_code client ctx cols ct = Some code \<and> code \<noteq> [])
            \<and> generated_renders_ok r (new_analyzer tmp client d sid) \<longrightarrow>
            chart_count (analyze r (new_analyzer tmp client d sid)) = Some 5)
       \<and> ((\<forall>ctx cols ct. generate_chart_code client ctx cols ct = None) \<longrightarrow>
            chart_count (analyze r (new_analyzer tmp client d sid)) = Some 3
            \<and> chart_codes (analyze r (new_analyzer tmp client d sid)) =
                Some [Hist_template (hd (select_number d)), Bar_template (hd (select_object d)),
                      Box_template (take 5 (select_number d))])"
proof (intro conjI impI)
  assume h: "(\<forall>ctx cols ct. \<exists>code. generate_chart_code client ctx cols ct = Some code \<and> code \<noteq> [])
            \<and> generated_renders_ok r (new_analyzer tmp client d sid)"
  have "\<And>ctx cols ct. length (generated (generate_chart_code client ctx cols ct)) = 1"
  proof -
    fix ctx cols ct
    obtain code where "generate_chart_code client ctx cols ct = Some code" "code \<noteq> []" using h by blast
    then show "length (generated (generate_chart_code client ctx cols ct)) = 1" by (simp add: generated_def)
  qed
  then show "chart_count (analyze r (new_analyzer tmp client d sid)) = Some 5"
    unfolding chart_count_codes analyze_codes [OF assms(1) assms(2) assms(3) conjunct2 [OF h]] by simp
next
  assume g: "\<forall>ctx cols ct. generate_chart_code client ctx cols ct = None"
  then have ok: "generated_renders_ok r (new_analyzer tmp client d sid)"
    by (simp add: generated_renders_ok_def rendered_def new_analyzer_def Let_def)
  show m: "chart_codes (analyze r (new_analyzer tmp client d sid)) =
                Some [Hist_template (hd (select_number d)), Bar_template (hd (select_object d)),
                      Box_template (take 5 (select_number d))]"
    unfolding analyze_codes [OF assms(1) assms(2) assms(3) ok] using g by (simp add: generated_def)
  show "chart_count (analyze r (new_analyzer tmp client d sid)) = Some 3"
    unfolding chart_count_codes m by simp
qed

theorem analyze_chart_cap_witness:
  "2 \<le> length (select_number sales_df) \<and> 1 \<le> length (select_object sales_df)
   \<and> builtin_renders_ok demo_renderer (new_analyzer ''temp'' helpful_llm sales_df ''s1'')
   \<and> generated_renders_ok demo_renderer (new_analyzer ''temp'' helpful_llm sales_df ''s1'')
   \<and> chart_count (analyze demo_renderer (new_analyzer ''temp'' helpful_llm sales_df ''s1'')) = Some 5
   \<and> builtin_renders_ok demo_renderer (new_analyzer ''temp'' silent_llm sales_df ''s1'')
   \<and> chart_count (analyze demo_renderer (new_analyzer ''temp'' silent_llm sales_df ''s1'')) = Some 3
   \<and> chart_codes (analyze demo_renderer (new_analyzer ''temp'' silent_llm sales_df ''s1'')) =
       Some [Hist_template (LStr ''price''), Bar_template (LStr ''region''),
             Box_template [LStr ''price'', LStr ''units'']]"
proof -
  have a: "2 \<le> length (select_number sales_df)"
    by (simp add: select_number_def sales_df_def is_np_number_def)
  have b: "1 \<le> length (select_object sales_df)"
    by (simp add: select_object_def sales_df_def)
  have c: "builtin_renders_ok demo_renderer (new_analyzer tmp client sales_df sid)" for tmp client sid
    by (simp add: builtin_renders_ok_def demo_renderer_def Let_def)
  have d: "generated_renders_ok demo_renderer (new_analyzer ''temp'' helpful_llm sales_df ''s1'')"
    by (simp add: generated_renders_ok_def rendered_def new_analyzer_def helpful_code Let_def demo_renderer_def)
  have e: "select_number sales_df = [LStr ''price'', LStr ''units'']" "select_object sales_df = [LStr ''region'']"
    by (simp_all add: select_number_def select_object_def sales_df_def is_np_number_def)
  show ?thesis
    using analyze_chart_cap [OF a b c, of helpful_llm "''temp''" "''s1''"]
      analyze_chart_cap [OF a b c, of silent_llm "''temp''" "''s1''"]
      a b c d helpful_code silent_code by (simp add: e)
qed

subsection \<open>Orchestrator\<close>

lemma clean_sales:
  "clean pandas sales_df = (sales_df, [No_duplicates, Types_appropriate, No_missing, No_outliers])"
  by code_simp

lemma load_dataframe_uploads:
  "uploads st' = uploads st \<Longrightarrow> load_dataframe st' path = load_dataframe st path"
  by (simp add: load_dataframe_def split: option.splits)

lemma store_fields [simp]:
  "journal (record_effect e st) = journal st @ [e]"
  "sessions (record_effect e st) = sessions st"
  "datasets (record_effect e st) = datasets st"
  "results (record_effect e st) = results st"
  "uploads (record_effect e st) = uploads st"
  "writable (record_effect e st) = writable st"
  by (simp_all add: record_effect_def)

lemma status_fields [simp]:
  "journal (update_session_status st sid s) = journal st @ [Status_set s]"
  "sessions (update_session_status st sid s) sid = map_option (\<lambda>i. i\<lparr>status := s\<rparr>) (sessions st sid)"
  "datasets (update_session_status st sid s) = datasets st"
  "results (update_session_status st sid s) = results st"
  "uploads (update_session_status st sid s) = uploads st"
  "writable (update_session_status st sid s) = writable st"
  by (simp_all add: update_session_status_def)

lemma save_dataframe_fields [simp]:
  "journal (save_dataframe st d sid suffix) = journal st @ (if writable st sid then [Dataset_saved suffix] else [])"
  "sessions (save_dataframe st d sid suffix) = sessions st"
  "datasets (save_dataframe st d sid suffix) = (if writable st sid then (datasets st)((sid, suffix) \<mapsto> d) else datasets st)"
  "results (save_dataframe st d sid suffix) = results st"
  "uploads (save_dataframe st d sid suffix) = uploads st"
  "writable (save_dataframe st d sid suffix) = writable st"
  by (simp_all add: save_dataframe_def)

lemma save_result_fields [simp]:
  "journal (save_analysis_result st sid k v) = journal st @ (if writable st sid then [Result_saved k] else [])"
  "sessions (save_analysis_result st sid k v) = sessions st"
  "datasets (save_analysis_result st sid k v) = datasets st"
  "results (save_analysis_result st sid k v) = (if writable st sid then (results st)((sid, k) \<mapsto> v) else results st)"
  "uploads (save_analysis_result st sid k v) = uploads st"
  "writable (save_analysis_result st sid k v) = writable st"
  by (simp_all add: save_analysis_result_def)

lemma run_analysis_load_failure:
  assumes "sessions st sid = Some info" "filename info \<noteq> []" "filepath info \<noteq> []"
    and "load_dataframe st (filepath info) = None \<or> (\<exists>d. load_dataframe st (filepath info) = Some d \<and> empty_df d)"
  shows "run_analysis env (new_agent st sid) st =
     (False, update_session_status (record_effect (Stage_run Load_stage) (update_session_status st sid Analyzing)) sid Error)"
proof -
  let ?st1 = "record_effect (Stage_run Load_stage) (update_session_status st sid Analyzing)"
  have l: "load_dataframe ?st1 (filepath info) = load_dataframe st (filepath info)"
    by (rule load_dataframe_uploads) simp
  have "\<exists>e. run_body env sid (filename info) (filepath info) st = (Some e, ?st1)"
    using assms(4) unfolding run_body_def Let_def l by auto
  then show ?thesis
    using assms(1-3) by (auto simp: run_analysis_def new_agent_def get_session_def falsy_def)
qed

text \<open>
  Claim C7. A run on a session that exists (with a file name and a file path) whose data
  set cannot be loaded, or loads empty, returns \<open>False\<close> and ends with the session status
  \<open>error\<close>; it writes no result (so no report) and no data set, and its only effects are
  the two status updates around the load.
\<close>

theorem unreadable_input_ends_in_error:
  assumes "sessions st sid = Some info" and "filename info \<noteq> []" and "filepath info \<noteq> []"
    and "load_dataframe st (filepath info) = None \<or> (\<exists>d. load_dataframe st (filepath info) = Some d \<and> empty_df d)"
  shows "fst (run_analysis env (new_agent st sid) st) = False
       \<and> map_option status (sessions (snd (run_analysis env (new_agent st sid) st)) sid) = Some Error
       \<and> results (snd (run_analysis env (new_agent st sid) st)) = results st
       \<and> datasets (snd (run_analysis env (new_agent st sid) st)) = datasets st
       \<and> run_trace env (new_agent st sid) st = [Status_set Analyzing, Stage_run Load_stage, Status_set Error]"
  unfolding run_trace_def run_analysis_load_failure [OF assms]
  using assms(1) by simp

theorem unreadable_input_ends_in_error_witness:
  "sessions unreadable_store ''s1'' = Some \<lparr>filename = ''sales.csv'', filepath = ''temp/s1/sales.csv'', status = Uploaded\<rparr>
   \<and> load_dataframe unreadable_store ''temp/s1/sales.csv'' = None
   \<and> fst (run_analysis demo_env (new_agent unreadable_store ''s1'') unreadable_store) = False
   \<and> map_option status (sessions (snd (run_analysis demo_env (new_agent unreadable_store ''s1'') unreadable_store)) ''s1'') = Some Error
   \<and> results (snd (run_analysis demo_env (new_agent unreadable_store ''s1'') unreadable_store)) = results unreadable_store"
proof -
  have a: "sessions unreadable_store ''s1'' = Some \<lparr>filename = ''sales.csv'', filepath = ''temp/s1/sales.csv'', status = Uploaded\<rparr>"
    by (simp add: unreadable_store_def demo_store_def)
  have b: "load_dataframe unreadable_store ''temp/s1/sales.csv'' = None"
    by (simp add: load_dataframe_def unreadable_store_def split: option.splits)
  show ?thesis
    using unreadable_input_ends_in_error [OF a, of demo_env] a b by simp
qed

lemma demo_ext: "file_ext ''temp/s1/sales.csv'' = Some ''csv''"
  by (simp add: file_ext_def lower_char_def)

lemma demo_load: "load_dataframe demo_store ''temp/s1/sales.csv'' = Some sales_df"
  by (simp add: load_dataframe_def demo_ext demo_store_def)

lemma sales_not_empty: "\<not> empty_df sales_df"
  by (simp add: empty_df_def sales_df_def)

lemma demo_session:
  "sessions demo_store ''s1'' = Some \<lparr>filename = ''sales.csv'', filepath = ''temp/s1/sales.csv'', status = Uploaded\<rparr>"
  by (simp add: demo_store_def)

lemma run_analysis_cleaned:
  assumes "sessions st sid = Some info" "filename info \<noteq> []" "filepath info \<noteq> []"
    and "load_dataframe st (filepath info) = Some d" "\<not> empty_df d"
    and "cleaner env d = Inr (cleaned, rep)"
  shows "run_analysis env (new_agent st sid) st =
     (case analyze_cleaned env sid (filename info) cleaned rep
             (save_dataframe (record_effect (Stage_run Clean_stage)
                (record_effect (Stage_run Load_stage) (update_session_status st sid Analyzing))) cleaned sid ''cleaned'') of
        (None, st') \<Rightarrow> (True, st')
      | (Some e, st') \<Rightarrow> (False, update_session_status st' sid Error))"
proof -
  let ?st1 = "record_effect (Stage_run Load_stage) (update_session_status st sid Analyzing)"
  have l: "load_dataframe ?st1 (filepath info) = load_dataframe st (filepath info)"
    by (rule load_dataframe_uploads) simp
  have "run_body env sid (filename info) (filepath info) st =
      analyze_cleaned env sid (filename info) cleaned rep
        (save_dataframe (record_effect (Stage_run Clean_stage) ?st1) cleaned sid ''cleaned'')"
    using assms(4-6) unfolding run_body_def Let_def l by simp
  then show ?thesis
    using assms(1-3)
    by (simp add: run_analysis_def new_agent_def get_session_def falsy_def split: prod.splits option.splits)
qed

text \<open>What the later stages leave of a store: the data sets, and a journal that extends.\<close>

lemma persist_results_frame:
  "datasets (snd (persist_results env sid profile chs insights report st)) = datasets st
   \<and> (\<exists>evs. journal (snd (persist_results env sid profile chs insights report st)) = journal st @ evs)"
  by (simp add: persist_results_def Let_def split: sum.splits)

lemma analyze_cleaned_frame:
  "datasets (snd (analyze_cleaned env sid fname cleaned rep st)) = datasets st
   \<and> (\<exists>evs. journal (snd (analyze_cleaned env sid fname cleaned rep st)) = journal st @ evs)"
proof -
  have p: "\<And>profile chs insights report st0 pre.
      journal st0 = journal st @ pre \<Longrightarrow> datasets st0 = datasets st \<Longrightarrow>
      datasets (snd (persist_results env sid profile chs insights report st0)) = datasets st
      \<and> (\<exists>evs. journal (snd (persist_results env sid profile chs insights report st0)) = journal st @ evs)"
    using persist_results_frame by (metis append.assoc)
  show ?thesis
    unfolding analyze_cleaned_def Let_def
    by (auto split: sum.splits prod.splits intro!: p)
qed

lemma analyze_cleaned_raises:
  assumes "later_stage_raises env sid fname cleaned rep"
  shows "results (snd (analyze_cleaned env sid fname cleaned rep st)) = results st
       \<and> fst (analyze_cleaned env sid fname cleaned rep st) \<noteq> None"
proof (cases "profiler env cleaned")
  case (Inl e)
  then show ?thesis by (simp add: analyze_cleaned_def Let_def)
next
  case (Inr ps)
  obtain profile summary where ps: "ps = (profile, summary)" by (cases ps)
  note p = Inr [unfolded ps]
  show ?thesis
  proof (cases "chart_engine env cleaned sid")
    case (Inl e)
    then show ?thesis using p by (simp add: analyze_cleaned_def Let_def)
  next
    case c: (Inr chs)
    show ?thesis
    proof (cases "narrator env fname rep profile summary")
      case (Inl e)
      then show ?thesis using p c by (simp add: analyze_cleaned_def Let_def)
    next
      case n: (Inr texts)
      show ?thesis
      proof (cases "report_generator env sid fname profile rep chs texts")
        case (Inl e)
        then show ?thesis using p c n by (simp add: analyze_cleaned_def Let_def)
      next
        case (Inr report)
        then have "\<not> later_stage_raises env sid fname cleaned rep"
          using p c n by (simp add: later_stage_raises_def)
        then show ?thesis using assms by simp
      qed
    qed
  qed
qed

lemma analyze_cleaned_journal:
  "\<exists>evs. journal (snd (analyze_cleaned env sid fname cleaned rep st)) = journal st @ evs
       \<and> (if later_stage_raises env sid fname cleaned rep
           then (\<forall>k. Result_saved k \<notin> set evs)
           else take 4 evs = [Stage_run Profile_stage, Stage_run Chart_stage,
                              Stage_run Narrative_stage, Stage_run Report_stage])"
proof (cases "profiler env cleaned")
  case (Inl e)
  then show ?thesis by (simp add: analyze_cleaned_def later_stage_raises_def Let_def)
next
  case (Inr ps)
  obtain profile summary where ps: "ps = (profile, summary)" by (cases ps)
  note p = Inr [unfolded ps]
  show ?thesis
  proof (cases "chart_engine env cleaned sid")
    case (Inl e)
    then show ?thesis using p by (simp add: analyze_cleaned_def later_stage_raises_def Let_def)
  next
    case c: (Inr chs)
    show ?thesis
    proof (cases "narrator env fname rep profile summary")
      case (Inl e)
      then show ?thesis using p c by (simp add: analyze_cleaned_def later_stage_raises_def Let_def)
    next
      case n: (Inr texts)
      show ?thesis
      proof (cases "report_generator env sid fname profile rep chs texts")
        case (Inl e)
        then show ?thesis using p c n by (simp add: analyze_cleaned_def later_stage_raises_def Let_def)
      next
        case (Inr report)
        let ?st4 = "record_effect (Stage_run Report_stage) (record_effect (Stage_run Narrative_stage)
            (record_effect (Stage_run Chart_stage) (record_effect (Stage_run Profile_stage) st)))"
        obtain evs where "journal (snd (persist_results env sid profile chs (fst texts) report ?st4)) = journal ?st4 @ evs"
          using persist_results_frame by blast
        then show ?thesis
          using p c n Inr by (simp add: analyze_cleaned_def later_stage_raises_def Let_def)
      qed
    qed
  qed
qed

lemma analyze_cleaned_success:
  assumes "profiler env cleaned = Inr (profile, summary)"
    and "chart_engine env cleaned sid = Inr chs"
    and "narrator env fname rep profile summary = Inr texts"
    and "report_generator env sid fname profile rep chs texts = Inr report"
    and "dumps_profile env profile = Inr pj" and "dumps_charts env chs = Inr cj"
    and "dumps_report env report = Inr rj"
  shows "analyze_cleaned env sid fname cleaned rep st =
     (None, update_session_status
        (save_analysis_result (save_analysis_result (save_analysis_result (save_analysis_result
           (record_effect (Stage_run Report_stage) (record_effect (Stage_run Narrative_stage)
             (record_effect (Stage_run Chart_stage) (record_effect (Stage_run Profile_stage) st))))
           sid ''profile'' pj) sid ''charts'' cj) sid ''insights'' (fst texts)) sid ''report'' rj)
        sid Completed)"
  using assms by (simp add: analyze_cleaned_def persist_results_def Let_def)

lemma chart_failure_raises:
  "later_stage_raises chart_failure_env ''s1'' ''sales.csv'' sales_df rep"
  by (simp add: later_stage_raises_def chart_failure_env_def demo_env_def)

lemma chart_failure_run:
  "run_analysis chart_failure_env (new_agent demo_store ''s1'') demo_store =
     (False, update_session_status
        (record_effect (Stage_run Chart_stage) (record_effect (Stage_run Profile_stage)
          (save_dataframe (record_effect (Stage_run Clean_stage)
            (record_effect (Stage_run Load_stage) (update_session_status demo_store ''s1'' Analyzing)))
             sales_df ''s1'' ''cleaned''))) ''s1'' Error)"
proof -
  have c: "cleaner chart_failure_env sales_df = Inr (sales_df, [No_duplicates, Types_appropriate, No_missing, No_outliers])"
    by (simp add: chart_failure_env_def demo_env_def clean_sales)
  show ?thesis
    unfolding run_analysis_cleaned [OF demo_session _ _ _ sales_not_empty c, simplified, OF demo_load]
    by (simp add: analyze_cleaned_def Let_def chart_failure_env_def demo_env_def)
qed

text \<open>
  Claim C2 says that each of profile, charts and insights is persisted right after the stage
  that produces it and before any later stage runs, so that a later failure leaves it
  persisted. The code saves them only in its step 7, after the report is built: when the
  profiler has produced a profile and the chart engine then raises, no profile is in the
  store, and the chart stage ran with no save before it.
\<close>

theorem profile_not_persisted_when_charts_fail:
  "profiler chart_failure_env sales_df = Inr (''profile'', ''summary'')
   \<and> results (snd (run_analysis chart_failure_env (new_agent demo_store ''s1'') demo_store)) (''s1'', ''profile'') = None
   \<and> run_trace chart_failure_env (new_agent demo_store ''s1'') demo_store =
       [Status_set Analyzing, Stage_run Load_stage, Stage_run Clean_stage, Dataset_saved ''cleaned'',
        Stage_run Profile_stage, Stage_run Chart_stage, Status_set Error]"
  unfolding run_trace_def chart_failure_run
  by (simp add: chart_failure_env_def demo_env_def demo_store_def)

text \<open>
  Claim C2, amended. In a run whose data set loads and whose cleaner succeeds, with a
  writable session folder, the cleaned data set is persisted immediately after the cleaning
  stage and before any later stage (the run's first four effects are the status update, the
  load, the cleaning and the save), and it stays persisted whatever happens later. Profile,
  charts and insights are persisted in step 7 only: a result is saved only after
  the profiling, chart, narrative and report stages have all run; when one of these stages
  raises, the run returns \<open>False\<close> and no result has been persisted; and when none of them
  raises and the three \<open>json.dumps\<close> succeed, the run returns \<open>True\<close>, profile, charts,
  insights and report are saved in this order after the four stages, and the status is
  \<open>completed\<close>.
\<close>

theorem cleaned_dataset_persisted_before_later_stages:
  assumes "sessions st sid = Some info" and "filename info \<noteq> []" and "filepath info \<noteq> []"
    and "load_dataframe st (filepath info) = Some d" and "\<not> empty_df d"
    and "cleaner env d = Inr (cleaned, rep)" and "writable st sid"
  shows "datasets (snd (run_analysis env (new_agent st sid) st)) (sid, ''cleaned'') = Some cleaned
       \<and> take 4 (run_trace env (new_agent st sid) st) =
           [Status_set Analyzing, Stage_run Load_stage, Stage_run Clean_stage, Dataset_saved ''cleaned'']
       \<and> (later_stage_raises env sid (filename info) cleaned rep \<longrightarrow>
            fst (run_analysis env (new_agent st sid) st) = False
            \<and> results (snd (run_analysis env (new_agent st sid) st)) = results st
            \<and> datasets (snd (run_analysis env (new_agent st sid) st)) (sid, ''cleaned'') = Some cleaned)
       \<and> (Result_saved kind \<in> set (run_trace env (new_agent st sid) st) \<longrightarrow>
            take 8 (run_trace env (new_agent st sid) st) =
              [Status_set Analyzing, Stage_run Load_stage, Stage_run Clean_stage, Dataset_saved ''cleaned'',
               Stage_run Profile_stage, Stage_run Chart_stage, Stage_run Narrative_stage, Stage_run Report_stage])
       \<and> (profiler env cleaned = Inr (profile, summary)
          \<and> chart_engine env cleaned sid = Inr chs
          \<and> narrator env (filename info) rep profile summary = Inr texts
          \<and> report_generator env sid (filename info) profile rep chs texts = Inr report
          \<and> dumps_profile env profile = Inr pj \<and> dumps_charts env chs = Inr cj
          \<and> dumps_report env report = Inr rj \<longrightarrow>
            fst (run_analysis env (new_agent st sid) st) = True
            \<and> run_trace env (new_agent st sid) st =
                [Status_set Analyzing, Stage_run Load_stage, Stage_run Clean_stage, Dataset_saved ''cleaned'',
                 Stage_run Profile_stage, Stage_run Chart_stage, Stage_run Narrative_stage, Stage_run Report_stage,
                 Result_saved ''profile'', Result_saved ''charts'', Result_saved ''insights'',
                 Result_saved ''report'', Status_set Completed]
            \<and> results (snd (run_analysis env (new_agent st sid) st)) =
                (results st)((sid, ''profile'') \<mapsto> pj, (sid, ''charts'') \<mapsto> cj,
                             (sid, ''insights'') \<mapsto> fst texts, (sid, ''report'') \<mapsto> rj)
            \<and> map_option status (sessions (snd (run_analysis env (new_agent st sid) st)) sid) = Some Completed)"
proof -
  let ?st3 = "save_dataframe (record_effect (Stage_run Clean_stage)
                (record_effect (Stage_run Load_stage) (update_session_status st sid Analyzing))) cleaned sid ''cleaned''"
  let ?A = "analyze_cleaned env sid (filename info) cleaned rep ?st3"
  let ?R = "run_analysis env (new_agent st sid) st"
  let ?four = "[Status_set Analyzing, Stage_run Load_stage, Stage_run Clean_stage, Dataset_saved ''cleaned'']"
  have R: "?R = (case ?A of (None, st') \<Rightarrow> (True, st') | (Some e, st') \<Rightarrow> (False, update_session_status st' sid Error))"
    by (rule run_analysis_cleaned [OF assms(1-6)])
  have j3: "journal ?st3 = journal st @ ?four"
    using assms(7) by simp
  have d3: "datasets ?st3 (sid, ''cleaned'') = Some cleaned" using assms(7) by simp
  have r3: "results ?st3 = results st" by simp
  have w3: "writable ?st3 sid" using assms(7) by simp
  obtain evs where A: "journal (snd ?A) = journal ?st3 @ evs"
      and E: "if later_stage_raises env sid (filename info) cleaned rep
           then (\<forall>k. Result_saved k \<notin> set evs)
           else take 4 evs = [Stage_run Profile_stage, Stage_run Chart_stage,
                              Stage_run Narrative_stage, Stage_run Report_stage]"
    using analyze_cleaned_journal [of env sid "filename info" cleaned rep ?st3] by blast
  have dA: "datasets (snd ?A) = datasets ?st3"
    using analyze_cleaned_frame [of env sid "filename info" cleaned rep ?st3] by blast
  have dR: "datasets (snd ?R) = datasets (snd ?A)"
    unfolding R by (simp split: prod.splits option.splits)
  have "\<exists>evs'. journal (snd ?R) = journal (snd ?A) @ evs' \<and> (evs' = [] \<or> evs' = [Status_set Error])"
    unfolding R by (simp split: prod.splits option.splits)
  then obtain evs' where jR: "journal (snd ?R) = journal (snd ?A) @ evs'"
      and e': "evs' = [] \<or> evs' = [Status_set Error]" by blast
  have tr: "run_trace env (new_agent st sid) st = ?four @ evs @ evs'"
    unfolding run_trace_def jR A j3 by simp
  have c1: "datasets (snd ?R) (sid, ''cleaned'') = Some cleaned" using dR dA d3 by simp
  have c2: "take 4 (run_trace env (new_agent st sid) st) = ?four"
    unfolding tr by simp
  have c3: "fst ?R = False \<and> results (snd ?R) = results st"
    if "later_stage_raises env sid (filename info) cleaned rep"
    using analyze_cleaned_raises [OF that, of ?st3] r3 unfolding R
    by (auto split: prod.splits option.splits)
  have c4: "take 8 (run_trace env (new_agent st sid) st) =
              ?four @ [Stage_run Profile_stage, Stage_run Chart_stage, Stage_run Narrative_stage, Stage_run Report_stage]"
    if "Result_saved kind \<in> set (run_trace env (new_agent st sid) st)"
  proof -
    have "Result_saved kind \<in> set evs" using that e' unfolding tr by auto
    then have t: "take 4 evs = [Stage_run Profile_stage, Stage_run Chart_stage,
                              Stage_run Narrative_stage, Stage_run Report_stage]"
      using E by (auto split: if_splits)
    then have "length (take 4 evs) = 4" by simp
    then have "4 \<le> length evs" by simp
    then show ?thesis unfolding tr using t by simp
  qed
  have c5: "fst ?R = True
            \<and> run_trace env (new_agent st sid) st =
                ?four @ [Stage_run Profile_stage, Stage_run Chart_stage, Stage_run Narrative_stage, Stage_run Report_stage,
                 Result_saved ''profile'', Result_saved ''charts'', Result_saved ''insights'',
                 Result_saved ''report'', Status_set Completed]
            \<and> results (snd ?R) =
                (results st)((sid, ''profile'') \<mapsto> pj, (sid, ''charts'') \<mapsto> cj,
                             (sid, ''insights'') \<mapsto> fst texts, (sid, ''report'') \<mapsto> rj)
            \<and> map_option status (sessions (snd ?R) sid) = Some Completed"
    if h: "profiler env cleaned = Inr (profile, summary)
          \<and> chart_engine env cleaned sid = Inr chs
          \<and> narrator env (filename info) rep profile summary = Inr texts
          \<and> report_generator env sid (filename info) profile rep chs texts = Inr report
          \<and> dumps_profile env profile = Inr pj \<and> dumps_charts env chs = Inr cj
          \<and> dumps_report env report = Inr rj"
  proof -
    note s = analyze_cleaned_success [of env cleaned profile summary sid chs "filename info" rep texts report pj cj rj ?st3]
    have s': "?A = (None, update_session_status
        (save_analysis_result (save_analysis_result (save_analysis_result (save_analysis_result
           (record_effect (Stage_run Report_stage) (record_effect (Stage_run Narrative_stage)
             (record_effect (Stage_run Chart_stage) (record_effect (Stage_run Profile_stage) ?st3))))
           sid ''profile'' pj) sid ''charts'' cj) sid ''insights'' (fst texts)) sid ''report'' rj)
        sid Completed)"
      using h by (intro s) simp_all
    show ?thesis
      unfolding run_trace_def R s' using assms(1,7) by simp
  qed
  show ?thesis using c1 c2 c3 c4 c5 by simp
qed

lemma demo_run:
  "run_analysis demo_env (new_agent demo_store ''s1'') demo_store =
     (True, update_session_status
        (save_analysis_result (save_analysis_result (save_analysis_result (save_analysis_result
           (record_effect (Stage_run Report_stage) (record_effect (Stage_run Narrative_stage)
             (record_effect (Stage_run Chart_stage) (record_effect (Stage_run Profile_stage)
               (save_dataframe (record_effect (Stage_run Clean_stage)
                  (record_effect (Stage_run Load_stage) (update_session_status demo_store ''s1'' Analyzing)))
                  sales_df ''s1'' ''cleaned'')))))
           ''s1'' ''profile'' ''profile'') ''s1'' ''charts'' ''charts'') ''s1'' ''insights'' ''insights'')
           ''s1'' ''report'' ''report'')
        ''s1'' Completed)"
proof -
  have c: "cleaner demo_env sales_df = Inr (sales_df, [No_duplicates, Types_appropriate, No_missing, No_outliers])"
    by (simp add: demo_env_def clean_sales)
  show ?thesis
    unfolding run_analysis_cleaned [OF demo_session _ _ _ sales_not_empty c, simplified, OF demo_load]
    by (simp add: analyze_cleaned_def persist_results_def Let_def demo_env_def)
qed

theorem cleaned_dataset_persisted_before_later_stages_witness:
  "sessions demo_store ''s1'' = Some \<lparr>filename = ''sales.csv'', filepath = ''temp/s1/sales.csv'', status = Uploaded\<rparr>
   \<and> load_dataframe demo_store ''temp/s1/sales.csv'' = Some sales_df \<and> \<not> empty_df sales_df
   \<and> writable demo_store ''s1''
   \<and> later_stage_raises chart_failure_env ''s1'' ''sales.csv'' sales_df [No_duplicates, Types_appropriate, No_missing, No_outliers]
   \<and> datasets (snd (run_analysis chart_failure_env (new_agent demo_store ''s1'') demo_store)) (''s1'', ''cleaned'') = Some sales_df
   \<and> results (snd (run_analysis chart_failure_env (new_agent demo_store ''s1'') demo_store)) = results demo_store
   \<and> fst (run_analysis chart_failure_env (new_agent demo_store ''s1'') demo_store) = False
   \<and> Result_saved ''profile'' \<in> set (run_trace demo_env (new_agent demo_store ''s1'') demo_store)
   \<and> take 8 (run_trace demo_env (new_agent demo_store ''s1'') demo_store) =
       [Status_set Analyzing, Stage_run Load_stage, Stage_run Clean_stage, Dataset_saved ''cleaned'',
        Stage_run Profile_stage, Stage_run Chart_stage, Stage_run Narrative_stage, Stage_run Report_stage]
   \<and> fst (run_analysis demo_env (new_agent demo_store ''s1'') demo_store) = True
   \<and> run_trace demo_env (new_agent demo_store ''s1'') demo_store =
       [Status_set Analyzing, Stage_run Load_stage, Stage_run Clean_stage, Dataset_saved ''cleaned'',
        Stage_run Profile_stage, Stage_run Chart_stage, Stage_run Narrative_stage, Stage_run Report_stage,
        Result_saved ''profile'', Result_saved ''charts'', Result_saved ''insights'',
        Result_saved ''report'', Status_set Completed]
   \<and> results (snd (run_analysis demo_env (new_agent demo_store ''s1'') demo_store)) =
       (results demo_store)((''s1'', ''profile'') \<mapsto> ''profile'', (''s1'', ''charts'') \<mapsto> ''charts'',
                             (''s1'', ''insights'') \<mapsto> ''insights'', (''s1'', ''report'') \<mapsto> ''report'')
   \<and> map_option status (sessions (snd (run_analysis demo_env (new_agent demo_store ''s1'') demo_store)) ''s1'') = Some Completed"
proof -
  let ?rep = "[No_duplicates, Types_appropriate, No_missing, No_outliers]"
  let ?info = "\<lparr>filename = ''sales.csv'', filepath = ''temp/s1/sales.csv'', status = Uploaded\<rparr>"
  have c: "cleaner chart_failure_env sales_df = Inr (sales_df, ?rep)"
    by (simp add: chart_failure_env_def demo_env_def clean_sales)
  have c': "cleaner demo_env sales_df = Inr (sales_df, ?rep)"
    by (simp add: demo_env_def clean_sales)
  have w: "writable demo_store ''s1''" by (simp add: demo_store_def)
  have fn: "filename ?info = ''sales.csv''" by simp
  have n1: "filename ?info \<noteq> []" and n2: "filepath ?info \<noteq> []" by simp_all
  have l: "load_dataframe demo_store (filepath ?info) = Some sales_df"
    using demo_load by simp
  have s: "profiler demo_env sales_df = Inr (''profile'', ''summary'')
          \<and> chart_engine demo_env sales_df ''s1'' = Inr []
          \<and> narrator demo_env ''sales.csv'' ?rep ''profile'' ''summary'' = Inr (''insights'', ''executive summary'', ''recommendations'')
          \<and> report_generator demo_env ''s1'' ''sales.csv'' ''profile'' ?rep [] (''insights'', ''executive summary'', ''recommendations'') = Inr ''report''
          \<and> dumps_profile demo_env ''profile'' = Inr ''profile'' \<and> dumps_charts demo_env [] = Inr ''charts''
          \<and> dumps_report demo_env ''report'' = Inr ''report''"
    by (simp add: demo_env_def)
  have t: "Result_saved ''profile'' \<in> set (run_trace demo_env (new_agent demo_store ''s1'') demo_store)"
    unfolding run_trace_def demo_run by (simp add: demo_store_def)
  note f = cleaned_dataset_persisted_before_later_stages [OF demo_session n1 n2 l sales_not_empty c w, unfolded fn]
  note g = cleaned_dataset_persisted_before_later_stages [OF demo_session n1 n2 l sales_not_empty c' w, unfolded fn]
  note f3 = f [THEN conjunct2, THEN conjunct2, THEN conjunct1, THEN mp, OF chart_failure_raises]
  note g4 = g [THEN conjunct2, THEN conjunct2, THEN conjunct2, THEN conjunct1, THEN mp, OF t]
  note g5 = g [THEN conjunct2, THEN conjunct2, THEN conjunct2, THEN conjunct2, THEN mp, OF s, unfolded fst_conv]
  show ?thesis
    by (intro conjI demo_session demo_load sales_not_empty w chart_failure_raises
          f3 [THEN conjunct2, THEN conjunct2] f3 [THEN conjunct2, THEN conjunct1] f3 [THEN conjunct1]
          t g4 g5 [THEN conjunct1] g5 [THEN conjunct2, THEN conjunct1]
          g5 [THEN conjunct2, THEN conjunct2, THEN conjunct1] g5 [THEN conjunct2, THEN conjunct2, THEN conjunct2])
qed

subsection \<open>Cleaner\<close>

lemma append_report_fields [simp]:
  "cleaner_df (append_report e c) = cleaner_df c"
  "cleaning_report (append_report e c) = cleaning_report c @ [e]"
  by (simp_all add: append_report_def)

lemma handle_missing_values_columns:
  "columns (cleaner_df (handle_missing_values pd c)) =
     map (\<lambda>col. fst (handle_missing_column pd (nrows (cleaner_df c)) col)) (columns (cleaner_df c))"
  by (simp add: handle_missing_values_def Let_def)

lemma handle_missing_values_entry:
  "cleaning_report (handle_missing_values pd c) =
     cleaning_report c @ [if missing_info pd (cleaner_df c) = [] then No_missing
                          else Handled_missing (missing_info pd (cleaner_df c))]"
  by (simp add: handle_missing_values_def Let_def)

lemma missing_pct_exact:
  assumes "0 < n"
  shows "((of_nat m :: rat) / of_nat n * 100 > 50) = (50 * n < 100 * m)"
proof -
  have "((of_nat m :: rat) / of_nat n * 100 > 50) = ((of_nat (50 * n) :: rat) < of_nat (100 * m))"
    using assms by (simp add: field_simps)
  then show ?thesis by (simp only: of_nat_less_iff)
qed

lemma missing_pct_exact':
  assumes "0 < n"
  shows "(50 < (of_nat m :: rat) * 100 / of_nat n) = (50 * n < 100 * m)"
  using missing_pct_exact [OF assms, of m] by simp

lemma missing_count_le: "missing_count col \<le> length (cells col)"
  by (simp add: missing_count_def)

lemma foldr_max_attained:
  "vs \<noteq> [] \<Longrightarrow> \<exists>v\<in>set vs. f v = foldr (\<lambda>v m. max (f v) m) vs (0::nat)"
proof (induction vs)
  case Nil then show ?case by simp
next
  case (Cons v vs)
  show ?case
  proof (cases "vs = []")
    case True then show ?thesis by simp
  next
    case False
    then obtain w where "w \<in> set vs" "f w = foldr (\<lambda>v m. max (f v) m) vs 0" using Cons.IH by blast
    then show ?thesis by (cases "f v \<le> f w") (auto simp: max_def)
  qed
qed

lemma mode_exists:
  assumes "missing_count col < length (cells col)"
  shows "\<exists>v. mode (cells col) = Some v"
proof -
  define vs where "vs = filter notna (cells col)"
  have "filter isna (cells col) \<noteq> cells col"
    using assms by (auto simp: missing_count_def)
  then obtain x where "x \<in> set (cells col)" "\<not> isna x" by (auto simp: filter_id_conv)
  then have "vs \<noteq> []" by (auto simp: vs_def notna_def isna_def filter_empty_conv)
  from foldr_max_attained [OF this, of "count_list vs"]
  have "filter (\<lambda>v. count_list vs v = foldr (\<lambda>v m. max (count_list vs v) m) vs 0) vs \<noteq> []"
    by (auto simp: filter_empty_conv)
  then show ?thesis
    by (auto simp: mode_def Let_def vs_def [symmetric] split: list.splits)
qed

lemma handle_missing_column_cases:
  assumes "length (cells col) = n"
  shows "(50 * n < 100 * missing_count col \<longrightarrow>
            handle_missing_column pd n col =
              (col, Some (Kept_as_is (label col) (missing_count col) (of_nat (missing_count col) / of_nat n * 100))))
       \<and> (0 < missing_count col \<and> 100 * missing_count col \<le> 50 * n \<and> is_int64_or_float64 (dtype col) \<longrightarrow>
            handle_missing_column pd n col =
              (col\<lparr>cells := fillna (median pd (cells col)) (cells col)\<rparr>,
               Some (Filled_median (label col) (missing_count col) (median pd (cells col)))))
       \<and> (0 < missing_count col \<and> 100 * missing_count col \<le> 50 * n \<and> \<not> is_int64_or_float64 (dtype col) \<longrightarrow>
            (\<exists>v. mode (cells col) = Some v
               \<and> handle_missing_column pd n col =
                   (col\<lparr>cells := fillna v (cells col)\<rparr>, Some (Filled_mode (label col) (missing_count col) v))))
       \<and> (missing_count col = 0 \<longrightarrow> handle_missing_column pd n col = (col, None))"
proof (cases "0 < missing_count col")
  case True
  then have n: "0 < n" using missing_count_le [of col] assms by simp
  have "100 * missing_count col \<le> 50 * n \<Longrightarrow> \<exists>v. mode (cells col) = Some v"
    using True assms by (intro mode_exists) simp
  then show ?thesis
    using True n by (auto simp: handle_missing_column_def Let_def missing_pct_exact' split: option.splits)
next
  case False
  then show ?thesis by (simp add: handle_missing_column_def Let_def)
qed

lemma note_in_missing_info:
  assumes "i < length (columns d)" "snd (handle_missing_column pd (nrows d) (columns d ! i)) = Some note"
  shows "note \<in> set (missing_info pd d)"
proof -
  have "columns d ! i \<in> set (columns d)" using assms(1) by simp
  then show ?thesis using assms(2) by (force simp: missing_info_def)
qed

lemma length_missing_notes:
  "length (concat (map (\<lambda>col. case snd (handle_missing_column pd n col) of
                           None \<Rightarrow> [] | Some note \<Rightarrow> [note]) cs))
     = length (filter (\<lambda>col. 0 < missing_count col) cs)"
  by (induction cs) (auto simp: handle_missing_column_def Let_def split: option.splits)

lemma length_missing_info:
  "length (missing_info pd d) = length (filter (\<lambda>col. 0 < missing_count col) (columns d))"
  by (simp add: missing_info_def length_missing_notes)

text \<open>
  Claim C3 says that a column with exactly 50.0 percent missing is kept as it is. The code
  keeps a column only when its missing percentage is greater than 50 (its comment: "If more
  than 50% missing, just note it"): a numeric column with two of four values missing is
  filled with its median.
\<close>

theorem half_missing_column_is_imputed:
  "100 * missing_count (columns half_df ! 0) = 50 * nrows half_df
   \<and> columns (cleaner_df (handle_missing_values pandas (new_cleaner half_df))) =
       [\<lparr>label = LStr ''x'', dtype = Float64, cells = [Num 1, Num 3, Num 2, Num 2]\<rparr>]
   \<and> cleaning_report (handle_missing_values pandas (new_cleaner half_df)) =
       [Handled_missing [Filled_median (LStr ''x'') 2 (Num 2)]]
   \<and> columns (cleaner_df (handle_missing_values pandas (new_cleaner half_df))) \<noteq> columns half_df"
  by code_simp

text \<open>
  Claim C3, amended. In the missing-value step, per column of a well-formed data set: a
  column whose missing percentage exceeds 50 is left untouched and reported as kept, with
  its count and percentage; a column with some missing values and a missing percentage of
  at most 50, so also one with 49 percent and one with exactly 50 percent, is imputed and
  reported as filled: with the median it had before the step when it is stored as \<open>int64\<close>
  or \<open>float64\<close>, with its most frequent value otherwise (it has one, so \<open>'Unknown'\<close> is
  never used); a column with no missing value is unchanged. The step reports one line for
  each column with a missing value, in one entry of the cleaning report.
\<close>

theorem missing_value_policy:
  assumes "i < length (columns (cleaner_df c))" and "wf_df (cleaner_df c)"
  shows "(let d = cleaner_df c; n = nrows d; col = columns d ! i; missing = missing_count col;
              col' = columns (cleaner_df (handle_missing_values pd c)) ! i
          in (50 * n < 100 * missing \<longrightarrow>
                col' = col
                \<and> Kept_as_is (label col) missing (of_nat missing / of_nat n * 100) \<in> set (missing_info pd d))
           \<and> (0 < missing \<and> 100 * missing \<le> 50 * n \<and> is_int64_or_float64 (dtype col) \<longrightarrow>
                col' = col\<lparr>cells := fillna (median pd (cells col)) (cells col)\<rparr>
                \<and> Filled_median (label col) missing (median pd (cells col)) \<in> set (missing_info pd d))
           \<and> (0 < missing \<and> 100 * missing \<le> 50 * n \<and> \<not> is_int64_or_float64 (dtype col) \<longrightarrow>
                (\<exists>v. mode (cells col) = Some v
                   \<and> col' = col\<lparr>cells := fillna v (cells col)\<rparr>
                   \<and> Filled_mode (label col) missing v \<in> set (missing_info pd d)))
           \<and> (missing = 0 \<longrightarrow> col' = col)
           \<and> length (missing_info pd d) = length (filter (\<lambda>col. 0 < missing_count col) (columns d))
           \<and> cleaning_report (handle_missing_values pd c) =
               cleaning_report c @ [if missing_info pd d = [] then No_missing
                                    else Handled_missing (missing_info pd d)])"
proof -
  define d where "d = cleaner_df c"
  define col where "col = columns d ! i"
  have len: "length (cells col) = nrows d"
    using assms by (simp add: wf_df_def list_all_length d_def col_def)
  have i: "i < length (columns d)" using assms(1) by (simp add: d_def)
  have col': "columns (cleaner_df (handle_missing_values pd c)) ! i = fst (handle_missing_column pd (nrows d) col)"
    using i by (simp add: handle_missing_values_columns d_def col_def)
  have nt: "snd (handle_missing_column pd (nrows d) col) = Some x \<Longrightarrow> x \<in> set (missing_info pd d)" for x
    using note_in_missing_info [OF i, of pd x] by (simp add: col_def)
  note cs = handle_missing_column_cases [OF len, of pd]
  have 1: "50 * nrows d < 100 * missing_count col \<longrightarrow>
                fst (handle_missing_column pd (nrows d) col) = col
                \<and> Kept_as_is (label col) (missing_count col) (of_nat (missing_count col) / of_nat (nrows d) * 100)
                    \<in> set (missing_info pd d)"
    using cs nt by simp
  have 2: "0 < missing_count col \<and> 100 * missing_count col \<le> 50 * nrows d \<and> is_int64_or_float64 (dtype col) \<longrightarrow>
                fst (handle_missing_column pd (nrows d) col) = col\<lparr>cells := fillna (median pd (cells col)) (cells col)\<rparr>
                \<and> Filled_median (label col) (missing_count col) (median pd (cells col)) \<in> set (missing_info pd d)"
    using cs nt by simp
  have 3: "0 < missing_count col \<and> 100 * missing_count col \<le> 50 * nrows d \<and> \<not> is_int64_or_float64 (dtype col) \<longrightarrow>
                (\<exists>v. mode (cells col) = Some v
                   \<and> fst (handle_missing_column pd (nrows d) col) = col\<lparr>cells := fillna v (cells col)\<rparr>
                   \<and> Filled_mode (label col) (missing_count col) v \<in> set (missing_info pd d))"
  proof
    assume h: "0 < missing_count col \<and> 100 * missing_count col \<le> 50 * nrows d \<and> \<not> is_int64_or_float64 (dtype col)"
    then obtain v where v: "mode (cells col) = Some v"
       "handle_missing_column pd (nrows d) col =
          (col\<lparr>cells := fillna v (cells col)\<rparr>, Some (Filled_mode (label col) (missing_count col) v))"
      using cs by blast
    then have "Filled_mode (label col) (missing_count col) v \<in> set (missing_info pd d)"
      using nt by simp
    then show "\<exists>v. mode (cells col) = Some v
                   \<and> fst (handle_missing_column pd (nrows d) col) = col\<lparr>cells := fillna v (cells col)\<rparr>
                   \<and> Filled_mode (label col) (missing_count col) v \<in> set (missing_info pd d)"
      using v by auto
  qed
  have 4: "missing_count col = 0 \<longrightarrow> fst (handle_missing_column pd (nrows d) col) = col"
    using cs by simp
  show ?thesis
    unfolding Let_def d_def [symmetric] col_def [symmetric] col'
    using 1 2 3 4 length_missing_info [of pd d] handle_missing_values_entry [of pd c, folded d_def]
    by blast
qed

theorem missing_value_policy_witness:
  "wf_df (cleaner_df (new_cleaner survey_df))
   \<and> columns (cleaner_df (handle_missing_values pandas (new_cleaner survey_df))) =
       [\<lparr>label = LStr ''age'', dtype = Float64, cells = [Num 1, Num 3, Num 2, Num 2]\<rparr>,
        \<lparr>label = LStr ''city'', dtype = Object, cells = [Txt ''oslo'', Txt ''oslo'', Txt ''oslo'', Txt ''oslo'']\<rparr>,
        \<lparr>label = LStr ''note'', dtype = Object, cells = [NaN, NaN, NaN, Txt ''late'']\<rparr>,
        \<lparr>label = LStr ''id'', dtype = Int64, cells = [Num 1, Num 2, Num 3, Num 4]\<rparr>]
   \<and> Filled_median (LStr ''age'') 2 (Num 2) \<in> set (missing_info pandas survey_df)
   \<and> Filled_mode (LStr ''city'') 2 (Txt ''oslo'') \<in> set (missing_info pandas survey_df)
   \<and> Kept_as_is (LStr ''note'') 3 75 \<in> set (missing_info pandas survey_df)
   \<and> length (missing_info pandas survey_df) = 3
   \<and> cleaning_report (handle_missing_values pandas (new_cleaner survey_df)) =
       [Handled_missing (missing_info pandas survey_df)]"
proof -
  have d: "cleaner_df (new_cleaner survey_df) = survey_df" by (simp add: new_cleaner_def)
  have r: "cleaning_report (new_cleaner survey_df) = []" by (simp add: new_cleaner_def)
  have b: "wf_df (cleaner_df (new_cleaner survey_df))" by code_simp
  have i: "0 < length (columns (cleaner_df (new_cleaner survey_df)))"
      "1 < length (columns (cleaner_df (new_cleaner survey_df)))"
      "2 < length (columns (cleaner_df (new_cleaner survey_df)))"
      "3 < length (columns (cleaner_df (new_cleaner survey_df)))" by code_simp+
  have c: "columns survey_df ! 0 = \<lparr>label = LStr ''age'', dtype = Float64, cells = [Num 1, Num 3, NaN, NaN]\<rparr>"
      "columns survey_df ! 1 = \<lparr>label = LStr ''city'', dtype = Object, cells = [Txt ''oslo'', NaN, Txt ''oslo'', NaN]\<rparr>"
      "columns survey_df ! 2 = \<lparr>label = LStr ''note'', dtype = Object, cells = [NaN, NaN, NaN, Txt ''late'']\<rparr>"
      "columns survey_df ! 3 = \<lparr>label = LStr ''id'', dtype = Int64, cells = [Num 1, Num 2, Num 3, Num 4]\<rparr>"
      "nrows survey_df = 4" "length (columns survey_df) = 4"
    by (simp_all add: survey_df_def)
  have m: "missing_count \<lparr>label = LStr ''age'', dtype = Float64, cells = [Num 1, Num 3, NaN, NaN]\<rparr> = 2"
      "missing_count \<lparr>label = LStr ''city'', dtype = Object, cells = [Txt ''oslo'', NaN, Txt ''oslo'', NaN]\<rparr> = 2"
      "missing_count \<lparr>label = LStr ''note'', dtype = Object, cells = [NaN, NaN, NaN, Txt ''late'']\<rparr> = 3"
      "missing_count \<lparr>label = LStr ''id'', dtype = Int64, cells = [Num 1, Num 2, Num 3, Num 4]\<rparr> = 0"
    by (simp_all add: missing_count_def isna_def)
  have e: "median pandas [Num 1, Num 3, NaN, NaN] = Num 2" "mode [Txt ''oslo'', NaN, Txt ''oslo'', NaN] = Some (Txt ''oslo'')"
      "fillna (Num 2) [Num 1, Num 3, NaN, NaN] = [Num 1, Num 3, Num 2, Num 2]"
      "fillna (Txt ''oslo'') [Txt ''oslo'', NaN, Txt ''oslo'', NaN] = [Txt ''oslo'', Txt ''oslo'', Txt ''oslo'', Txt ''oslo'']"
    by code_simp+
  have l: "length (filter (\<lambda>col. 0 < missing_count col) (columns survey_df)) = 3" by code_simp
  have cols: "xs = [a0, a1, a2, a3]" if "length xs = 4" "xs ! 0 = a0" "xs ! 1 = a1" "xs ! 2 = a2" "xs ! 3 = a3"
    for xs :: "column list" and a0 a1 a2 a3
    using that by (auto simp: list_eq_iff_nth_eq less_Suc_eq numeral_eq_Suc)
  have len: "length (columns (cleaner_df (handle_missing_values pandas (new_cleaner survey_df)))) = 4"
    by (simp add: handle_missing_values_columns d c)
  note t0 = missing_value_policy [OF i(1) b, of pandas, unfolded Let_def d r c m e is_int64_or_float64_def]
  note t1 = missing_value_policy [OF i(2) b, of pandas, unfolded Let_def d r c m e is_int64_or_float64_def]
  note t2 = missing_value_policy [OF i(3) b, of pandas, unfolded Let_def d r c m e is_int64_or_float64_def]
  note t3 = missing_value_policy [OF i(4) b, of pandas, unfolded Let_def d r c m e is_int64_or_float64_def]
  have "columns (cleaner_df (handle_missing_values pandas (new_cleaner survey_df))) =
       [\<lparr>label = LStr ''age'', dtype = Float64, cells = [Num 1, Num 3, Num 2, Num 2]\<rparr>,
        \<lparr>label = LStr ''city'', dtype = Object, cells = [Txt ''oslo'', Txt ''oslo'', Txt ''oslo'', Txt ''oslo'']\<rparr>,
        \<lparr>label = LStr ''note'', dtype = Object, cells = [NaN, NaN, NaN, Txt ''late'']\<rparr>,
        \<lparr>label = LStr ''id'', dtype = Int64, cells = [Num 1, Num 2, Num 3, Num 4]\<rparr>]"
    using t0 t1 t2 t3 by (intro cols [OF len]) (simp_all add: e)
  moreover have "Filled_median (LStr ''age'') 2 (Num 2) \<in> set (missing_info pandas survey_df)"
    using t0 by (simp add: e)
  moreover have "Filled_mode (LStr ''city'') 2 (Txt ''oslo'') \<in> set (missing_info pandas survey_df)"
    using t1 by (simp add: e)
  moreover have "Kept_as_is (LStr ''note'') 3 75 \<in> set (missing_info pandas survey_df)"
    using t2 by simp
  moreover have "length (missing_info pandas survey_df) = 3" using t3 l by simp
  moreover have "cleaning_report (handle_missing_values pandas (new_cleaner survey_df)) =
       [Handled_missing (missing_info pandas survey_df)]"
    using t3 l by auto
  ultimately show ?thesis using b by blast
qed

lemma fix_data_types_columns:
  "columns (cleaner_df (fix_data_types pd c)) =
     map (\<lambda>col. fst (fix_column pd (nrows (cleaner_df c)) col)) (columns (cleaner_df c))"
  by (simp add: fix_data_types_def Let_def)

lemma seventy_pct_exact:
  assumes "k \<le> n"
  shows "((of_nat k :: rat) / of_nat n > 7 / 10) = (7 * n < 10 * k)"
proof (cases "n = 0")
  case True
  then show ?thesis using assms by simp
next
  case False
  then have "((of_nat k :: rat) / of_nat n > 7 / 10) = ((of_nat (7 * n) :: rat) < of_nat (10 * k))"
    by (simp add: field_simps)
  then show ?thesis by (simp only: of_nat_less_iff)
qed

lemma converted_le: "converted pd col \<le> length (cells col)"
  unfolding converted_def by (metis length_filter_le length_map)

lemma fix_column_cases:
  assumes "length (cells col) = n"
  shows "(dtype col = Object \<and> 7 * n < 10 * converted pd col \<longrightarrow>
            fst (fix_column pd n col) =
              col\<lparr>cells := map (to_numeric pd) (cells col),
                  dtype := numeric_dtype_of (map (to_numeric pd) (cells col))\<rparr>)
       \<and> (\<not> (dtype col = Object \<and> 7 * n < 10 * converted pd col) \<longrightarrow> fst (fix_column pd n col) = col)"
proof -
  have "converted pd col \<le> n" using converted_le assms by metis
  from seventy_pct_exact [OF this] show ?thesis
    by (simp add: fix_column_def Let_def converted_def)
qed

lemma numeric_dtype_of_numeric: "is_np_number (numeric_dtype_of xs)"
  by (simp add: numeric_dtype_of_def is_np_number_def)

text \<open>
  Claim C4 says that a column is adopted in numeric form if and only if at least 70 percent
  of its values convert. The code tests \<open>non_null_count / total_count > 0.7\<close> (its comment:
  "If more than 70% converts successfully, use it"): a text column of which exactly seven
  values in ten convert is left as it is.
\<close>

theorem exactly_seventy_percent_not_adopted:
  "converted pandas (columns seventy_df ! 0) = 7 \<and> nrows seventy_df = 10
   \<and> dtype (columns seventy_df ! 0) = Object
   \<and> columns (cleaner_df (fix_data_types pandas (new_cleaner seventy_df))) = columns seventy_df
   \<and> cleaning_report (fix_data_types pandas (new_cleaner seventy_df)) = [Types_appropriate]"
  by code_simp

text \<open>
  Claim C4, amended. In the type-fixing step, a column of a well-formed data set whose
  stored type is \<open>object\<close> is adopted in numeric form if and only if more than 70 percent
  of the rows convert to a number; when it is adopted, every cell is replaced by its
  conversion, which is a missing value for a text that does not convert; otherwise the
  column is unchanged.
\<close>

theorem type_fixing_threshold:
  assumes "i < length (columns (cleaner_df c))" and "wf_df (cleaner_df c)"
    and "dtype (columns (cleaner_df c) ! i) = Object"
  shows "is_np_number (dtype (columns (cleaner_df (fix_data_types pd c)) ! i))
           = (7 * nrows (cleaner_df c) < 10 * converted pd (columns (cleaner_df c) ! i))
       \<and> (7 * nrows (cleaner_df c) < 10 * converted pd (columns (cleaner_df c) ! i) \<longrightarrow>
            cells (columns (cleaner_df (fix_data_types pd c)) ! i) =
              map (to_numeric pd) (cells (columns (cleaner_df c) ! i))
            \<and> (\<forall>s. parse_numeric pd s = None \<longrightarrow> to_numeric pd (Txt s) = NaN))
       \<and> (\<not> 7 * nrows (cleaner_df c) < 10 * converted pd (columns (cleaner_df c) ! i) \<longrightarrow>
            columns (cleaner_df (fix_data_types pd c)) ! i = columns (cleaner_df c) ! i)"
proof -
  let ?col = "columns (cleaner_df c) ! i"
  let ?col' = "columns (cleaner_df (fix_data_types pd c)) ! i"
  have len: "length (cells ?col) = nrows (cleaner_df c)"
    using assms by (simp add: wf_df_def list_all_length)
  have col': "?col' = fst (fix_column pd (nrows (cleaner_df c)) ?col)"
    using assms(1) by (simp add: fix_data_types_columns)
  have nan: "\<forall>s. parse_numeric pd s = None \<longrightarrow> to_numeric pd (Txt s) = NaN"
    by (simp add: to_numeric_def)
  show ?thesis
  proof (cases "7 * nrows (cleaner_df c) < 10 * converted pd ?col")
    case True
    then have "?col' = ?col\<lparr>cells := map (to_numeric pd) (cells ?col),
                  dtype := numeric_dtype_of (map (to_numeric pd) (cells ?col))\<rparr>"
      using fix_column_cases [OF len, of pd] assms(3) col' by simp
    then have "is_np_number (dtype ?col') \<and> cells ?col' = map (to_numeric pd) (cells ?col)"
      by (simp add: numeric_dtype_of_numeric)
    then show ?thesis using True nan by simp
  next
    case False
    then have "?col' = ?col"
      using fix_column_cases [OF len, of pd] col' by simp
    then show ?thesis using False assms(3) by (simp add: is_np_number_def)
  qed
qed

theorem type_fixing_threshold_witness:
  "0 < length (columns (cleaner_df (new_cleaner seventy_df))) \<and> wf_df (cleaner_df (new_cleaner seventy_df))
   \<and> dtype (columns (cleaner_df (new_cleaner seventy_df)) ! 0) = Object
   \<and> \<not> 7 * nrows (cleaner_df (new_cleaner seventy_df)) < 10 * converted pandas (columns (cleaner_df (new_cleaner seventy_df)) ! 0)
   \<and> columns (cleaner_df (fix_data_types pandas (new_cleaner seventy_df))) ! 0 = columns (cleaner_df (new_cleaner seventy_df)) ! 0
   \<and> \<not> is_np_number (dtype (columns (cleaner_df (fix_data_types pandas (new_cleaner seventy_df))) ! 0))
   \<and> 7 * nrows (cleaner_df (new_cleaner mostly_numeric_df)) < 10 * converted pandas (columns (cleaner_df (new_cleaner mostly_numeric_df)) ! 0)
   \<and> is_np_number (dtype (columns (cleaner_df (fix_data_types pandas (new_cleaner mostly_numeric_df))) ! 0))
   \<and> cells (columns (cleaner_df (fix_data_types pandas (new_cleaner mostly_numeric_df))) ! 0) = [Num 1, Num 2, Num 3, NaN]"
proof -
  have a: "0 < length (columns (cleaner_df (new_cleaner seventy_df)))" by code_simp
  have b: "wf_df (cleaner_df (new_cleaner seventy_df))" by code_simp
  have c: "dtype (columns (cleaner_df (new_cleaner seventy_df)) ! 0) = Object" by code_simp
  have d: "\<not> 7 * nrows (cleaner_df (new_cleaner seventy_df)) < 10 * converted pandas (columns (cleaner_df (new_cleaner seventy_df)) ! 0)"
    by code_simp
  have a': "0 < length (columns (cleaner_df (new_cleaner mostly_numeric_df)))" by code_simp
  have b': "wf_df (cleaner_df (new_cleaner mostly_numeric_df))" by code_simp
  have c': "dtype (columns (cleaner_df (new_cleaner mostly_numeric_df)) ! 0) = Object" by code_simp
  have d': "7 * nrows (cleaner_df (new_cleaner mostly_numeric_df)) < 10 * converted pandas (columns (cleaner_df (new_cleaner mostly_numeric_df)) ! 0)"
    by code_simp
  have e': "map (to_numeric pandas) (cells (columns (cleaner_df (new_cleaner mostly_numeric_df)) ! 0)) = [Num 1, Num 2, Num 3, NaN]"
    by code_simp
  show ?thesis
    using type_fixing_threshold [OF a b c, of pandas] type_fixing_threshold [OF a' b' c', of pandas]
      a b c d d' e' by (simp add: is_np_number_def)
qed

lemma standardize_columns_report:
  "cleaning_report (standardize_columns pd c) = cleaning_report c @
     (if standardization_failed pd (cleaner_df c)
      then [Standardize_warning (case astype_str pd (map label (columns (cleaner_df c))) of
              Inl e \<Rightarrow> e | Inr names \<Rightarrow> Exception ''Length mismatch'')]
      else [])"
  by (simp add: standardize_columns_def standardization_failed_def split: sum.splits)

lemma remove_duplicates_report:
  "\<exists>e. cleaning_report (remove_duplicates c) = cleaning_report c @ [e] \<and> is_duplicates_entry e"
  by (simp add: remove_duplicates_def Let_def is_duplicates_entry_def)

lemma fix_data_types_report:
  "\<exists>e. cleaning_report (fix_data_types pd c) = cleaning_report c @ [e] \<and> is_types_entry e"
  by (simp add: fix_data_types_def Let_def is_types_entry_def)

lemma handle_missing_values_report:
  "\<exists>e. cleaning_report (handle_missing_values pd c) = cleaning_report c @ [e] \<and> is_missing_entry e"
  by (simp add: handle_missing_values_def Let_def is_missing_entry_def)

lemma detect_outliers_report:
  "\<exists>e. cleaning_report (detect_outliers pd c) = cleaning_report c @ [e] \<and> is_outliers_entry e"
  by (simp add: detect_outliers_def Let_def is_outliers_entry_def)

lemma remove_empty_report:
  "cleaning_report (remove_empty c) = cleaning_report c @
     (if nrows (drop_empty_rows (cleaner_df c)) < nrows (cleaner_df c)
         \<or> length (columns (drop_empty_columns (drop_empty_rows (cleaner_df c))))
              < length (columns (drop_empty_rows (cleaner_df c)))
      then [Removed_empty (nrows (cleaner_df c) - nrows (drop_empty_rows (cleaner_df c)))
              (length (columns (drop_empty_rows (cleaner_df c)))
                 - length (columns (drop_empty_columns (drop_empty_rows (cleaner_df c)))))]
      else [])"
  by (simp add: remove_empty_def Let_def)

text \<open>
  Claim C6 says that every one of the six steps appends at least one entry, whether or not
  it changed anything. On a data set that needs no cleaning the report has four entries:
  the column-name step (which reports only a failure) and the empty row/column step (which
  reports only a removal) wrote none.
\<close>

theorem unchanged_data_gives_four_entries:
  "snd (clean pandas sales_df) = [No_duplicates, Types_appropriate, No_missing, No_outliers]
   \<and> length (snd (clean pandas sales_df)) = 4
   \<and> \<not> list_ex is_warning_entry (snd (clean pandas sales_df))
   \<and> \<not> list_ex is_empty_entry (snd (clean pandas sales_df))"
  by code_simp

text \<open>
  Claim C6, amended. For every input data set, duplicate removal, type fixing,
  missing-value handling and outlier detection each append exactly one entry, whether or
  not they changed anything; column-name standardization appends one entry (a warning)
  exactly when it failed, and empty row/column removal appends one entry exactly when it
  removed a row or a column. The finished report is these entries in the order of the steps.
\<close>

theorem cleaning_report_entries:
  "\<exists>w e1 e2 e3 r e4.
      snd (clean pd d) = w @ [e1, e2, e3] @ r @ [e4]
      \<and> is_duplicates_entry e1 \<and> is_types_entry e2 \<and> is_missing_entry e3 \<and> is_outliers_entry e4
      \<and> (if standardization_failed pd d then length w = 1 \<and> list_all is_warning_entry w else w = [])
      \<and> (if something_empty pd d then length r = 1 \<and> list_all is_empty_entry r else r = [])"
proof -
  define c0 where "c0 = standardize_columns pd (new_cleaner d)"
  define c1 where "c1 = remove_duplicates c0"
  define c2 where "c2 = fix_data_types pd c1"
  define c3 where "c3 = handle_missing_values pd c2"
  define c4 where "c4 = remove_empty c3"
  define w where "w = cleaning_report c0"
  define r where "r = (if nrows (drop_empty_rows (cleaner_df c3)) < nrows (cleaner_df c3)
         \<or> length (columns (drop_empty_columns (drop_empty_rows (cleaner_df c3))))
              < length (columns (drop_empty_rows (cleaner_df c3)))
      then [Removed_empty (nrows (cleaner_df c3) - nrows (drop_empty_rows (cleaner_df c3)))
              (length (columns (drop_empty_rows (cleaner_df c3)))
                 - length (columns (drop_empty_columns (drop_empty_rows (cleaner_df c3)))))]
      else [])"
  have b: "before_remove_empty pd d = cleaner_df c3"
    by (simp add: before_remove_empty_def c3_def c2_def c1_def c0_def)
  have w: "if standardization_failed pd d then length w = 1 \<and> list_all is_warning_entry w else w = []"
    unfolding w_def c0_def standardize_columns_report
    by (simp add: new_cleaner_def is_warning_entry_def)
  have r: "if something_empty pd d then length r = 1 \<and> list_all is_empty_entry r else r = []"
    unfolding something_empty_def b Let_def r_def
    by (auto simp: is_empty_entry_def)
  obtain e1 where e1: "cleaning_report c1 = w @ [e1]" "is_duplicates_entry e1"
    using remove_duplicates_report [of c0] unfolding c1_def w_def by blast
  obtain e2 where e2: "cleaning_report c2 = cleaning_report c1 @ [e2]" "is_types_entry e2"
    using fix_data_types_report [of pd c1] unfolding c2_def by blast
  obtain e3 where e3: "cleaning_report c3 = cleaning_report c2 @ [e3]" "is_missing_entry e3"
    using handle_missing_values_report [of pd c2] unfolding c3_def by blast
  have e4': "cleaning_report c4 = cleaning_report c3 @ r"
    unfolding c4_def r_def by (rule remove_empty_report)
  obtain e4 where e4: "cleaning_report (detect_outliers pd c4) = cleaning_report c4 @ [e4]" "is_outliers_entry e4"
    using detect_outliers_report [of pd c4] by blast
  have "snd (clean pd d) = cleaning_report (detect_outliers pd c4)"
    by (simp add: clean_def clean_run_def c4_def c3_def c2_def c1_def c0_def)
  then have "snd (clean pd d) = w @ [e1, e2, e3] @ r @ [e4]"
    using e1(1) e2(1) e3(1) e4' e4(1) by simp
  then show ?thesis using e1(2) e2(2) e3(2) e4(2) w r by blast
qed

subsection \<open>Cleaner: running it on its own output\<close>

lemma relabel_same: "map (\<lambda>(col, n). col\<lparr>label := n\<rparr>) (zip cols (map label cols)) = cols"
  by (induction cols) simp_all

lemma standardize_columns_fixed:
  assumes "labels_are_text pd (cleaner_df c)"
  shows "cleaner_df (standardize_columns pd c) = cleaner_df c"
  using assms by (simp add: standardize_columns_def labels_are_text_def relabel_same)

lemma first_seen_distinct:
  "distinct xs \<Longrightarrow> set xs \<inter> set seen = {} \<Longrightarrow> first_seen seen xs = replicate (length xs) True"
  by (induction xs arbitrary: seen) auto

lemma select_cells_all:
  "length keep = length xs \<Longrightarrow> list_all id keep \<Longrightarrow> select_cells keep xs = xs"
proof (induction xs arbitrary: keep)
  case Nil
  then show ?case by (simp add: select_cells_def)
next
  case (Cons x xs)
  then obtain k ks where "keep = k # ks" by (cases keep) auto
  then show ?case using Cons by (simp add: select_cells_def)
qed

lemma filter_id_all: "list_all id keep \<Longrightarrow> filter id keep = keep"
  by (induction keep) auto

lemma select_rows_all:
  assumes "wf_df d" "length keep = nrows d" "list_all id keep"
  shows "select_rows keep d = d"
proof -
  have "map (\<lambda>c. c\<lparr>cells := select_cells keep (cells c)\<rparr>) (columns d) = columns d"
  proof (rule map_idI)
    fix c assume "c \<in> set (columns d)"
    then have "length (cells c) = nrows d" using assms(1) by (simp add: wf_df_def list_all_iff)
    then show "c\<lparr>cells := select_cells keep (cells c)\<rparr> = c"
      using select_cells_all [of keep "cells c"] assms(2,3) by simp
  qed
  then show ?thesis using assms(2,3) by (simp add: select_rows_def filter_id_all)
qed

lemma length_rows [simp]: "length (rows d) = nrows d"
  by (simp add: rows_def)

lemma drop_duplicates_fixed:
  assumes "wf_df d" "no_duplicate_rows d"
  shows "drop_duplicates d = d"
proof (cases "empty_df d")
  case True
  then show ?thesis by (simp add: drop_duplicates_def)
next
  case False
  then have "distinct (rows d)" using assms(2) by (simp add: no_duplicate_rows_def)
  then have "first_seen [] (rows d) = replicate (nrows d) True"
    using first_seen_distinct [of "rows d" "[]"] by simp
  then show ?thesis using False select_rows_all [OF assms(1), of "replicate (nrows d) True"]
    by (simp add: drop_duplicates_def list_all_iff)
qed

lemma fix_columns_fixed:
  assumes "wf_df d" "no_convertible_text pd d"
  shows "map (\<lambda>col. fst (fix_column pd (nrows d) col)) (columns d) = columns d
       \<and> filter snd (map (fix_column pd (nrows d)) (columns d)) = []"
proof -
  have "\<And>c. c \<in> set (columns d) \<Longrightarrow> fix_column pd (nrows d) c = (c, False)"
  proof -
    fix c assume c: "c \<in> set (columns d)"
    then have len: "length (cells c) = nrows d" using assms(1) by (simp add: wf_df_def list_all_iff)
    have k: "length (filter notna (map (to_numeric pd) (cells c))) \<le> nrows d"
      using len by (metis length_filter_le length_map)
    have "\<not> (dtype c = Object \<and> 7 * nrows d < 10 * converted pd c)"
      using assms(2) c by (simp add: no_convertible_text_def list_all_iff)
    then show "fix_column pd (nrows d) c = (c, False)"
      using seventy_pct_exact [OF k] by (auto simp: fix_column_def Let_def converted_def)
  qed
  then show ?thesis by (simp add: map_idI filter_empty_conv)
qed

lemma fix_data_types_fixed:
  assumes "wf_df (cleaner_df c)" "no_convertible_text pd (cleaner_df c)"
  shows "cleaner_df (fix_data_types pd c) = cleaner_df c"
  using fix_columns_fixed [OF assms]
  by (simp add: fix_data_types_def Let_def comp_def)

lemma handle_missing_values_fixed:
  assumes "wf_df (cleaner_df c)" "nothing_to_impute (cleaner_df c)"
  shows "cleaner_df (handle_missing_values pd c) = cleaner_df c"
proof -
  let ?d = "cleaner_df c"
  have "map (\<lambda>col. fst (handle_missing_column pd (nrows ?d) col)) (columns ?d) = columns ?d"
  proof (rule map_idI)
    fix col assume col: "col \<in> set (columns ?d)"
    then have len: "length (cells col) = nrows ?d" using assms(1) by (simp add: wf_df_def list_all_iff)
    have "missing_count col = 0 \<or> 50 * nrows ?d < 100 * missing_count col"
      using assms(2) col by (simp add: nothing_to_impute_def list_all_iff)
    then show "fst (handle_missing_column pd (nrows ?d) col) = col"
      using handle_missing_column_cases [OF len, of pd] by auto
  qed
  then show ?thesis by (simp add: handle_missing_values_def Let_def comp_def)
qed

lemma remove_empty_fixed:
  assumes "wf_df (cleaner_df c)" "no_empty_rows (cleaner_df c)" "no_empty_columns (cleaner_df c)"
  shows "cleaner_df (remove_empty c) = cleaner_df c"
proof -
  let ?d = "cleaner_df c"
  have "list_all id (map (list_ex notna) (rows ?d))"
    using assms(2) by (simp add: no_empty_rows_def list_all_iff)
  then have r: "drop_empty_rows ?d = ?d"
    using select_rows_all [OF assms(1), of "map (list_ex notna) (rows ?d)"]
    by (simp add: drop_empty_rows_def)
  have "filter (\<lambda>c. list_ex notna (cells c)) (columns ?d) = columns ?d"
    using assms(3) by (simp add: no_empty_columns_def list_all_iff)
  then have k: "drop_empty_columns ?d = ?d" by (simp add: drop_empty_columns_def)
  show ?thesis by (simp add: remove_empty_def Let_def r k)
qed

lemma remove_duplicates_df [simp]: "cleaner_df (remove_duplicates c) = drop_duplicates (cleaner_df c)"
  by (simp add: remove_duplicates_def Let_def)

lemma detect_outliers_df [simp]: "cleaner_df (detect_outliers pd c) = cleaner_df c"
  by (simp add: detect_outliers_def Let_def)

lemma clean_fixed:
  assumes "wf_df d" "labels_are_text pd d" "no_duplicate_rows d" "no_convertible_text pd d"
    "nothing_to_impute d" "no_empty_rows d" "no_empty_columns d"
  shows "fst (clean pd d) = d"
proof -
  define c0 where "c0 = standardize_columns pd (new_cleaner d)"
  define c1 where "c1 = remove_duplicates c0"
  define c2 where "c2 = fix_data_types pd c1"
  define c3 where "c3 = handle_missing_values pd c2"
  have d0: "cleaner_df c0 = d"
    unfolding c0_def using standardize_columns_fixed [of pd "new_cleaner d"] assms(2)
    by (simp add: new_cleaner_def)
  have d1: "cleaner_df c1 = d"
    unfolding c1_def using drop_duplicates_fixed [OF assms(1,3)] d0 by simp
  have d2: "cleaner_df c2 = d"
    unfolding c2_def using fix_data_types_fixed [of c1 pd] assms(1,4) d1 by simp
  have d3: "cleaner_df c3 = d"
    unfolding c3_def using handle_missing_values_fixed [of c2 pd] assms(1,5) d2 by simp
  have d4: "cleaner_df (remove_empty c3) = d"
    using remove_empty_fixed [of c3] assms(1,6,7) d3 by simp
  have "fst (clean pd d) = cleaner_df (detect_outliers pd (remove_empty c3))"
    by (simp add: clean_def clean_run_def c3_def c2_def c1_def c0_def)
  then show ?thesis using d4 by simp
qed

lemma length_select_cells:
  "length xs = length keep \<Longrightarrow> length (select_cells keep xs) = length (filter id keep)"
proof (induction xs arbitrary: keep)
  case Nil
  then show ?case by (simp add: select_cells_def)
next
  case (Cons x xs)
  then obtain k ks where k: "keep = k # ks" by (cases keep) auto
  then have "length (select_cells ks xs) = length (filter id ks)" using Cons by (simp add: id_def)
  then show ?case using k by (simp add: select_cells_def id_def)
qed

lemma length_first_seen [simp]: "length (first_seen seen xs) = length xs"
  by (induction xs arbitrary: seen) simp_all

lemma wf_select_rows:
  assumes "wf_df d" "length keep = nrows d"
  shows "wf_df (select_rows keep d)"
  using assms by (simp add: wf_df_def select_rows_def list_all_iff length_select_cells)

lemma wf_standardize_columns:
  assumes "wf_df (cleaner_df c)"
  shows "wf_df (cleaner_df (standardize_columns pd c))"
proof -
  have "\<And>names. wf_df ((cleaner_df c)\<lparr>columns :=
          map (\<lambda>(col, n). col\<lparr>label := n\<rparr>) (zip (columns (cleaner_df c)) names)\<rparr>)"
    using assms by (auto simp: wf_df_def list_all_iff dest: set_zip_leftD)
  then show ?thesis using assms
    by (simp add: standardize_columns_def split: sum.splits)
qed

lemma wf_remove_duplicates:
  assumes "wf_df (cleaner_df c)"
  shows "wf_df (cleaner_df (remove_duplicates c))"
  using assms wf_select_rows [of "cleaner_df c" "first_seen [] (rows (cleaner_df c))"]
  by (simp add: drop_duplicates_def)

lemma length_fix_column [simp]: "length (cells (fst (fix_column pd n col))) = length (cells col)"
  by (simp add: fix_column_def Let_def)

lemma wf_fix_data_types:
  assumes "wf_df (cleaner_df c)"
  shows "wf_df (cleaner_df (fix_data_types pd c))"
  using assms by (simp add: fix_data_types_def Let_def wf_df_def list_all_iff)

lemma length_handle_missing_column [simp]:
  "length (cells (fst (handle_missing_column pd n col))) = length (cells col)"
  by (simp add: handle_missing_column_def Let_def fillna_def split: option.splits)

lemma wf_handle_missing_values:
  assumes "wf_df (cleaner_df c)"
  shows "wf_df (cleaner_df (handle_missing_values pd c))"
  using assms by (simp add: handle_missing_values_def Let_def wf_df_def list_all_iff)

lemma select_cells_map: "select_cells keep (map f ys) = map f (select_cells keep ys)"
proof (induction ys arbitrary: keep)
  case Nil
  then show ?case by (simp add: select_cells_def)
next
  case (Cons y ys)
  show ?case
  proof (cases keep)
    case Nil
    then show ?thesis by (simp add: select_cells_def)
  next
    case (Cons k ks)
    then show ?thesis using Cons.IH [of ks] by (simp add: select_cells_def)
  qed
qed

lemma select_cells_positions:
  assumes "length xs = length keep"
  shows "select_cells keep xs = map ((!) xs) (positions keep)"
proof -
  have "xs = map ((!) xs) [0..<length keep]" using assms map_nth [of xs] by simp
  then have "select_cells keep xs = select_cells keep (map ((!) xs) [0..<length keep])" by simp
  then show ?thesis by (simp only: select_cells_map positions_def)
qed

lemma positions_keep:
  assumes "j \<in> set (positions keep)"
  shows "j < length keep \<and> keep ! j"
proof -
  from assms obtain b where "(j, b) \<in> set (filter snd (zip [0..<length keep] keep))"
    by (auto simp: positions_def select_cells_def)
  then have b: "b" and z: "(j, b) \<in> set (zip [0..<length keep] keep)" by auto
  from z obtain i where "[0..<length keep] ! i = j" "keep ! i = b" "i < length keep"
    by (auto simp: in_set_zip)
  then show ?thesis using b by simp
qed

lemma length_positions: "length (positions keep) = length (filter id keep)"
  by (simp add: positions_def length_select_cells)

lemma rows_select_rows_nth:
  assumes "wf_df b" "length keep = nrows b" "i < length (positions keep)"
  shows "rows (select_rows keep b) ! i = rows b ! (positions keep ! i)"
proof -
  let ?j = "positions keep ! i"
  have j: "?j < nrows b" using positions_keep [of ?j keep] assms(2,3) by simp
  have n: "nrows (select_rows keep b) = length (positions keep)"
    by (simp add: select_rows_def length_positions)
  have "\<And>c. c \<in> set (columns b) \<Longrightarrow> select_cells keep (cells c) ! i = cells c ! ?j"
  proof -
    fix c assume "c \<in> set (columns b)"
    then have "length (cells c) = length keep" using assms(1,2) by (simp add: wf_df_def list_all_iff)
    then show "select_cells keep (cells c) ! i = cells c ! ?j"
      using assms(3) by (simp add: select_cells_positions)
  qed
  then have "map (\<lambda>c. cells c ! i) (columns (select_rows keep b)) = map (\<lambda>c. cells c ! ?j) (columns b)"
    by (simp add: select_rows_def comp_def)
  then show ?thesis using j n assms(3) by (simp add: rows_def)
qed

lemma no_empty_rows_drop_empty_rows:
  assumes "wf_df b"
  shows "no_empty_rows (drop_empty_rows b)"
proof -
  let ?keep = "map (list_ex notna) (rows b)"
  have len: "length ?keep = nrows b" by simp
  have "\<And>i. i < nrows (drop_empty_rows b) \<Longrightarrow> list_ex notna (rows (drop_empty_rows b) ! i)"
  proof -
    fix i assume "i < nrows (drop_empty_rows b)"
    then have i: "i < length (positions ?keep)"
      by (simp add: drop_empty_rows_def select_rows_def length_positions)
    then have "positions ?keep ! i \<in> set (positions ?keep)" by simp
    then have p: "positions ?keep ! i < length ?keep" "?keep ! (positions ?keep ! i)"
      using positions_keep by blast+
    from p(1) have "positions ?keep ! i < length (rows b)" by simp
    then have "list_ex notna (rows b ! (positions ?keep ! i))" using p(2) by (simp only: nth_map)
    then show "list_ex notna (rows (drop_empty_rows b) ! i)"
      using rows_select_rows_nth [OF assms len i] by (simp add: drop_empty_rows_def)
  qed
  then show ?thesis
    unfolding no_empty_rows_def list_all_length by simp
qed

lemma wf_drop_empty_rows: "wf_df b \<Longrightarrow> wf_df (drop_empty_rows b)"
  by (simp add: drop_empty_rows_def wf_select_rows)

lemma drop_empty_columns_clean:
  assumes "wf_df d1" "no_empty_rows d1"
  shows "wf_df (drop_empty_columns d1) \<and> no_empty_rows (drop_empty_columns d1)
       \<and> no_empty_columns (drop_empty_columns d1)"
proof -
  have w: "wf_df (drop_empty_columns d1)"
    using assms(1) by (simp add: wf_df_def drop_empty_columns_def list_all_iff)
  have c: "no_empty_columns (drop_empty_columns d1)"
    by (simp add: no_empty_columns_def drop_empty_columns_def list_all_iff)
  have "\<And>i. i < nrows d1 \<Longrightarrow> list_ex notna (rows (drop_empty_columns d1) ! i)"
  proof -
    fix i assume i: "i < nrows d1"
    then have "list_ex notna (rows d1 ! i)"
      using assms(2) by (simp add: no_empty_rows_def list_all_length)
    then obtain c where c: "c \<in> set (columns d1)" "notna (cells c ! i)"
      using i by (auto simp: rows_def list_ex_iff)
    then have "i < length (cells c)" using assms(1) i by (simp add: wf_df_def list_all_iff)
    then have "list_ex notna (cells c)" using c(2) by (auto simp: list_ex_iff)
    then have "c \<in> set (columns (drop_empty_columns d1))" using c(1) by (simp add: drop_empty_columns_def)
    then show "list_ex notna (rows (drop_empty_columns d1) ! i)"
      using c(2) i by (auto simp: rows_def list_ex_iff drop_empty_columns_def)
  qed
  then have r: "no_empty_rows (drop_empty_columns d1)"
    unfolding no_empty_rows_def list_all_length by (simp add: drop_empty_columns_def)
  show ?thesis using w r c by simp
qed

lemma remove_empty_df: "cleaner_df (remove_empty c) = drop_empty_columns (drop_empty_rows (cleaner_df c))"
  by (simp add: remove_empty_def Let_def)

lemma clean_output_form:
  assumes "wf_df d"
  shows "wf_df (fst (clean pd d)) \<and> no_empty_rows (fst (clean pd d)) \<and> no_empty_columns (fst (clean pd d))"
proof -
  define c3 where "c3 = handle_missing_values pd (fix_data_types pd
       (remove_duplicates (standardize_columns pd (new_cleaner d))))"
  have "wf_df (cleaner_df (new_cleaner d))" using assms by (simp add: new_cleaner_def)
  then have "wf_df (cleaner_df c3)"
    unfolding c3_def
    by (intro wf_handle_missing_values wf_fix_data_types wf_remove_duplicates wf_standardize_columns)
  then have w: "wf_df (drop_empty_rows (cleaner_df c3))" "no_empty_rows (drop_empty_rows (cleaner_df c3))"
    by (simp_all add: wf_drop_empty_rows no_empty_rows_drop_empty_rows)
  have "fst (clean pd d) = drop_empty_columns (drop_empty_rows (cleaner_df c3))"
    by (simp add: clean_def clean_run_def c3_def remove_empty_df)
  then show ?thesis using drop_empty_columns_clean [OF w] by simp
qed

text \<open>
  Claim C9 says that a second run of the cleaner returns the output of the first unchanged.
  It does not in general: filling a gap can make two rows equal, which the second run
  removes as a duplicate (\<open>dup_df\<close>); filling the gaps of a text column can take it over the
  70 percent threshold, so the second run changes its type (\<open>text_df\<close>); and dropping an empty
  row can take a column kept as it was down to 50 percent missing, so the second run imputes
  it (\<open>sparse_df\<close>).
\<close>

theorem second_run_changes_cleaned_output:
  "nrows (fst (clean pandas dup_df)) = 3 \<and> nrows (fst (clean pandas (fst (clean pandas dup_df)))) = 2
   \<and> map dtype (columns (fst (clean pandas text_df))) = [Int64, Object]
   \<and> map dtype (columns (fst (clean pandas (fst (clean pandas text_df))))) = [Int64, Float64]
   \<and> map cells (columns (fst (clean pandas sparse_df))) = [[Num 1, NaN], [NaN, Num 2]]
   \<and> map cells (columns (fst (clean pandas (fst (clean pandas sparse_df))))) = [[Num 1, Num 1], [Num 2, Num 2]]
   \<and> fst (clean pandas (fst (clean pandas dup_df))) \<noteq> fst (clean pandas dup_df)"
  by code_simp

text \<open>
  Claim C9, amended. For every well-formed data set whose cleaned output has text labels,
  no duplicate rows, no text column that converts to numbers at more than 70 percent and no
  column whose missing values are at most 50 percent of its rows, running the full pipeline
  on that output returns it unchanged: no row is removed, no type changes, nothing is
  imputed.
\<close>

theorem second_run_returns_output_unchanged:
  assumes "wf_df d" and "labels_are_text pd (fst (clean pd d))"
    and "no_duplicate_rows (fst (clean pd d))"
    and "no_convertible_text pd (fst (clean pd d))"
    and "nothing_to_impute (fst (clean pd d))"
  shows "fst (clean pd (fst (clean pd d))) = fst (clean pd d)"
  using clean_fixed [of "fst (clean pd d)" pd] clean_output_form [OF assms(1), of pd] assms(2-5)
  by simp

theorem second_run_returns_output_unchanged_witness:
  "wf_df half_df \<and> labels_are_text pandas (fst (clean pandas half_df))
   \<and> no_duplicate_rows (fst (clean pandas half_df))
   \<and> no_convertible_text pandas (fst (clean pandas half_df))
   \<and> nothing_to_impute (fst (clean pandas half_df))
   \<and> fst (clean pandas (fst (clean pandas half_df))) = fst (clean pandas half_df)
   \<and> fst (clean pandas half_df) \<noteq> half_df"
proof -
  have a: "wf_df half_df" by code_simp
  have b: "labels_are_text pandas (fst (clean pandas half_df))" by code_simp
  have c: "no_duplicate_rows (fst (clean pandas half_df))" by code_simp
  have d: "no_convertible_text pandas (fst (clean pandas half_df))" by code_simp
  have e: "nothing_to_impute (fst (clean pandas half_df))" by code_simp
  have f: "fst (clean pandas half_df) \<noteq> half_df" by code_simp
  show ?thesis
    using second_run_returns_output_unchanged [OF a b c d e] a b c d e f by simp
qed

end
